theory Spec2Isabelle
  imports Complex_Main
begin

section \<open>The product list client: data model\<close>

text \<open>
  The development follows the client script of the product importer (the module-level
  variables, \<open>getQueryKey\<close>, \<open>prefetchNextPage\<close>, \<open>fetchProducts\<close>,
  \<open>applyFilters\<close>, \<open>loadMore\<close>, \<open>populateProductsTable\<close>,
  \<open>renderPagination\<close>, \<open>debouncedSearch\<close>, the filter handlers and the
  upload form's progress handlers).

  The script runs on one event loop. Every handler is modelled as a function from the
  state before it runs to the state after it has run up to its next \<open>await\<close>; the part of
  an \<open>async\<close> function after its \<open>await\<close> is a second function (\<open>_resume\<close>) that the event
  loop runs when the awaited \<open>fetch\<close> settles.

  Strings are \<open>string\<close>; one \<open>char\<close> stands for one UTF-16 code unit of the script's
  strings (search terms are taken from the Latin-1 range).
\<close>

subsection \<open>Constants\<close>

definition itemsPerPage :: int where
  "itemsPerPage = 10"

definition SEARCH_DEBOUNCE_MS :: nat where
  "SEARCH_DEBOUNCE_MS = 400"

definition MIN_SEARCH_LENGTH :: nat where
  "MIN_SEARCH_LENGTH = 2"

subsection \<open>Query strings\<close>

text \<open>
  A \<open>URLSearchParams\<close> object is kept as the ordered list of the pairs appended to it.
  Its \<open>toString()\<close> percent-encodes names and values and joins them with \<open>=\<close> and \<open>&\<close>, so
  two such lists have the same serialisation exactly when they are equal: comparing
  query keys with \<open>===\<close> is comparing the lists. A value remembers whether the script
  appended a number, a string or a boolean.
\<close>

datatype pval = Num int | Str string | Bool bool

type_synonym params = "(string \<times> pval) list"

definition isWhiteSpace :: "char \<Rightarrow> bool" where
  "isWhiteSpace c = (c = CHR '' '' \<or> c = CHR 0x09 \<or> c = CHR 0x0A \<or> c = CHR 0x0B
     \<or> c = CHR 0x0C \<or> c = CHR 0x0D \<or> c = CHR 0xA0)"

text \<open>
  \<open>String.prototype.trim\<close> removes white space and line terminators from both ends; these
  are the ones among the first 256 code units.
\<close>

definition trim :: "string \<Rightarrow> string" where
  "trim s = rev (dropWhile isWhiteSpace (rev (dropWhile isWhiteSpace s)))"

text \<open>
  The block that builds the query string occurs three times in the script, letter for
  letter (in \<open>getQueryKey\<close>, \<open>prefetchNextPage\<close> and \<open>fetchProducts\<close>); it is written once
  here. \<open>searchTerm\<close> is the trimmed term; a string is truthy when it is not empty.
\<close>

definition buildParams :: "int \<Rightarrow> string \<Rightarrow> string \<Rightarrow> string \<Rightarrow> params" where
  "buildParams skip searchTerm searchType statusF =
     [(''skip'', Num skip), (''limit'', Num itemsPerPage)]
     @ (if searchTerm \<noteq> [] \<and> length searchTerm \<ge> MIN_SEARCH_LENGTH
        then [(''search'', Str searchTerm),
              (''search_type'', Str (if searchType \<noteq> [] then searchType else ''sku''))]
        else [])
     @ (if statusF \<noteq> [] then [(''active'', Bool (statusF = ''true''))] else [])"

subsection \<open>Products, pages and the rendered view\<close>

record product =
  p_id :: int
  p_sku :: string
  p_name :: string
  p_description :: "string option"
  p_active :: bool

text \<open>The body of a list response: \<open>{ total: integer | null, products: [...] }\<close>.\<close>

record pageData =
  d_total :: "int option"
  d_products :: "product list"

text \<open>The prefetch slot \<open>{ queryKey, data, page }\<close>.\<close>

record prefetchSlot =
  c_queryKey :: params
  c_data :: pageData
  c_page :: int

text \<open>
  A product row of the table: the HTML put into its first four cells, the \<open>data-id\<close> of
  its buttons, and the text its description cell puts into the description modal when
  clicked (\<open>None\<close>: no click handler was registered).
\<close>

record tableRow =
  cell_sku :: string
  cell_name :: string
  cell_description :: string
  cell_active :: string
  data_id :: int
  descriptionClick :: "string option"

datatype fetchError = HttpError nat | TransportError string

text \<open>The rows of \<open>#products-table tbody\<close>: the four message rows and product rows.\<close>

datatype tbodyRow =
    LoadingRow
  | NoProductsRow
  | GuidanceRow
  | FailedRow fetchError
  | ProductRow tableRow

text \<open>An entry of \<open>pagesToShow\<close>: a page number or the string \<open>'...'\<close>.\<close>

datatype pageItem = PageNum int | Dots

text \<open>
  The children of \<open>#pagination\<close>. A button carries what its click handler closes over:
  the next button the \<open>totalPages\<close> it was rendered with, a page button its page. The
  boolean of the previous and next buttons is \<open>disabled\<close>, that of a page button \<open>active\<close>.
\<close>

datatype paginationElem =
    LoadMoreBtn
  | PrevBtn bool
  | PageBtn int bool
  | EllipsisSpan
  | NextBtn bool int

subsection \<open>Requests in flight\<close>

text \<open>
  A \<open>fetch\<close> that has been issued and has not settled. \<open>r_signal\<close> is the identity of the
  \<open>AbortController\<close> whose signal it was given, \<open>r_url\<close> its query string. A prefetch
  request closes over \<open>nextPage\<close> (and over \<open>queryKey\<close>, which is its \<open>r_url\<close>).
\<close>

datatype requestKind = Authoritative | Prefetch int

record request =
  r_signal :: nat
  r_url :: params
  r_kind :: requestKind

text \<open>
  How a \<open>fetch\<close> settles when its signal has not been aborted: a 2xx response with a
  body, a response that is not \<open>ok\<close> (with its status), or a rejection (transport failure,
  with the error's message). A \<open>fetch\<close> whose signal was aborted before it settled
  rejects with \<open>AbortError\<close> whatever the server did; the functions that resume a
  request look at the signal first.
\<close>

datatype response = Ok pageData | NotOk nat | Rejected string

subsection \<open>The state\<close>

text \<open>
  The module-level variables of the script, the parts of the page it reads and writes,
  and the environment: the \<open>AbortController\<close>s created so far (\<open>nextController\<close> is the
  next fresh identity), the signals aborted so far, the requests in flight, the clock in
  milliseconds, and the timers.

  The script has one debounce timer at most: \<open>searchDebounceTimer\<close> holds the pending
  timeout, kept as the time at which it is due (\<open>None\<close> for \<open>null\<close>, and after
  \<open>clearTimeout\<close>). \<open>guidanceTimers\<close> are the due times of the 100 ms timeouts set by the
  short-search branch of \<open>fetchProducts\<close>, which nothing ever clears.
\<close>

record state =
  currentPage :: int
  searchDebounceTimer :: "nat option"
  currentSearchAbortController :: "nat option"
  prefetchCache :: "prefetchSlot option"
  prefetchAbortController :: "nat option"
  currentQueryKey :: "params option"
  isLoadMoreMode :: bool
  searchInput :: string
  searchTypeFilter :: string
  statusFilter :: string
  tbody :: "tbodyRow list"
  searchLoading :: bool
  pagination :: "paginationElem list"
  nextController :: nat
  abortedSignals :: "nat set"
  pending :: "request list"
  clock :: nat
  guidanceTimers :: "nat list"

text \<open>
  The state when the script has been loaded: the initial values of its variables, an
  empty page, nothing in flight. The filters' initial values come from the page's
  markup, which is not part of the script; they are taken to be empty.
\<close>

definition initialState :: state where
  "initialState =
     \<lparr> currentPage = 1, searchDebounceTimer = None, currentSearchAbortController = None,
       prefetchCache = None, prefetchAbortController = None, currentQueryKey = None,
       isLoadMoreMode = False, searchInput = [], searchTypeFilter = [],
       statusFilter = [], tbody = [], searchLoading = False, pagination = [],
       nextController = 0, abortedSignals = {}, pending = [], clock = 0,
       guidanceTimers = [] \<rparr>"

text \<open>\<open>controller.abort()\<close>.\<close>

definition abortSignal :: "nat \<Rightarrow> state \<Rightarrow> state" where
  "abortSignal c s = s\<lparr>abortedSignals := insert c (abortedSignals s)\<rparr>"

section \<open>Rendering\<close>

definition showLoadingState :: "state \<Rightarrow> state" where
  "showLoadingState s = s\<lparr>tbody := [LoadingRow], searchLoading := True\<rparr>"

definition hideLoadingState :: "state \<Rightarrow> state" where
  "hideLoadingState s = s\<lparr>searchLoading := False\<rparr>"

subsection \<open>Escaping the description\<close>

text \<open>\<open>s.replace(/c/g, r)\<close> for a one-character pattern.\<close>

definition replaceAll :: "char \<Rightarrow> string \<Rightarrow> string \<Rightarrow> string" where
  "replaceAll c r s = concat (map (\<lambda>x. if x = c then r else [x]) s)"

text \<open>The chain of five \<open>replace\<close> calls of \<open>populateProductsTable\<close>, in its order.\<close>

definition escapeDescription :: "string \<Rightarrow> string" where
  "escapeDescription description =
     replaceAll (CHR 0x27) ''&#039;''
       (replaceAll (CHR 0x22) ''&quot;''
         (replaceAll CHR ''>'' ''&gt;''
           (replaceAll CHR ''<'' ''&lt;''
             (replaceAll CHR ''&'' ''&amp;'' description))))"

text \<open>
  What the escaping is meant to compute, character by character: each of the five
  characters becomes its entity, every other character stays.
\<close>

definition htmlEntity :: "char \<Rightarrow> string" where
  "htmlEntity c =
     (if c = CHR ''&'' then ''&amp;''
      else if c = CHR ''<'' then ''&lt;''
      else if c = CHR ''>'' then ''&gt;''
      else if c = CHR 0x22 then ''&quot;''
      else if c = CHR 0x27 then ''&#039;''
      else [c])"

definition escapedBySpec :: "string \<Rightarrow> string" where
  "escapedBySpec description = concat (map htmlEntity description)"

subsection \<open>The table\<close>

text \<open>\<open>product.description || ''\<close>.\<close>

definition descriptionOf :: "product \<Rightarrow> string" where
  "descriptionOf p = (case p_description p of None \<Rightarrow> [] | Some d \<Rightarrow> d)"

text \<open>The body of the \<open>forEach\<close> of \<open>populateProductsTable\<close>: one row for one product.\<close>

definition renderRow :: "product \<Rightarrow> tableRow" where
  "renderRow p =
     (let description = descriptionOf p;
          escapedDescription = escapeDescription description
      in \<lparr> cell_sku = p_sku p,
           cell_name = p_name p,
           cell_description = escapedDescription,
           cell_active = (if p_active p then ''Yes'' else ''No''),
           data_id = p_id p,
           descriptionClick = (if description \<noteq> [] \<and> length description > 0
                               then Some description else None) \<rparr>)"

definition populateProductsTable :: "product list \<Rightarrow> bool \<Rightarrow> state \<Rightarrow> state" where
  "populateProductsTable products appendRows s =
     (let s1 = (if \<not> appendRows then s\<lparr>tbody := []\<rparr> else s)
      in if products = [] \<or> length products = 0
         then (if \<not> appendRows then s1\<lparr>tbody := [NoProductsRow]\<rparr> else s1)
         else s1\<lparr>tbody := tbody s1 @ map (\<lambda>p. ProductRow (renderRow p)) products\<rparr>)"

subsection \<open>Pagination\<close>

text \<open>
  \<open>[...new Set(xs)]\<close>: a \<open>Set\<close> keeps each value once, in the order of first insertion
  (so it is not \<open>remdups\<close>, which keeps the last occurrence).
\<close>

fun setDedup :: "'a list \<Rightarrow> 'a list \<Rightarrow> 'a list" where
  "setDedup seen [] = seen"
| "setDedup seen (x # xs) = (if x \<in> set seen then setDedup seen xs else setDedup (seen @ [x]) xs)"

definition windowSize :: int where
  "windowSize = 2"

text \<open>The array \<open>pagesToShow\<close> as \<open>renderPagination\<close> builds it, push by push.\<close>

definition pagesToShow :: "int \<Rightarrow> int \<Rightarrow> pageItem list" where
  "pagesToShow totalPages cur =
     [PageNum 1]
     @ (if cur - windowSize > 2 then [Dots] else [])
     @ map PageNum [max 2 (cur - windowSize) .. min (totalPages - 1) (cur + windowSize)]
     @ (if cur + windowSize < totalPages - 1 then [Dots] else [])
     @ (if totalPages > 1 then [PageNum totalPages] else [])"

definition uniquePagesToShow :: "int \<Rightarrow> int \<Rightarrow> pageItem list" where
  "uniquePagesToShow totalPages cur = setDedup [] (pagesToShow totalPages cur)"

definition renderPageItem :: "int \<Rightarrow> pageItem \<Rightarrow> paginationElem" where
  "renderPageItem cur item =
     (case item of Dots \<Rightarrow> EllipsisSpan | PageNum page \<Rightarrow> PageBtn page (page = cur))"

definition renderPagination :: "int option \<Rightarrow> bool \<Rightarrow> state \<Rightarrow> state" where
  "renderPagination totalPages hasMore s =
     (case totalPages of
        None \<Rightarrow> (if \<not> hasMore then s\<lparr>pagination := []\<rparr> else s\<lparr>pagination := [LoadMoreBtn]\<rparr>)
      | Some tp \<Rightarrow>
          if tp \<le> 1 then s\<lparr>pagination := []\<rparr>
          else s\<lparr>pagination :=
                 [PrevBtn (currentPage s = 1)]
                 @ map (renderPageItem (currentPage s)) (uniquePagesToShow tp (currentPage s))
                 @ [NextBtn (currentPage s = tp) tp]\<rparr>)"

section \<open>The request controller\<close>

subsection \<open>\<open>getQueryKey\<close>\<close>

definition getQueryKey :: "int \<Rightarrow> state \<Rightarrow> params" where
  "getQueryKey page s =
     (let searchTerm = trim (searchInput s);
          searchType = searchTypeFilter s;
          statusF = statusFilter s;
          skip = (page - 1) * itemsPerPage
      in buildParams skip searchTerm searchType statusF)"

subsection \<open>\<open>prefetchNextPage\<close>\<close>

text \<open>
  \<open>prefetchNextPage\<close> up to its \<open>await fetch(...)\<close>: it aborts the prefetch whose
  controller it holds, returns early for a short search term or when the slot already
  holds the next page's key, and otherwise stores a new controller and issues the
  request.
\<close>

definition prefetchNextPage :: "state \<Rightarrow> state" where
  "prefetchNextPage s0 =
     (let s = (case prefetchAbortController s0 of None \<Rightarrow> s0 | Some c \<Rightarrow> abortSignal c s0);
          searchTerm = trim (searchInput s);
          searchType = searchTypeFilter s;
          statusF = statusFilter s;
          nextPage = currentPage s + 1;
          skip = (nextPage - 1) * itemsPerPage
      in if searchTerm \<noteq> [] \<and> length searchTerm < MIN_SEARCH_LENGTH then s
         else
           let queryKey = buildParams skip searchTerm searchType statusF
           in if (case prefetchCache s of None \<Rightarrow> False | Some slot \<Rightarrow> c_queryKey slot = queryKey)
              then s
              else
                let controller = nextController s
                in s\<lparr>prefetchAbortController := Some controller,
                     nextController := controller + 1,
                     pending := pending s @
                       [\<lparr>r_signal = controller, r_url = queryKey, r_kind = Prefetch nextPage\<rparr>]\<rparr>)"

text \<open>
  The rest of \<open>prefetchNextPage\<close>, run when its request \<open>r\<close> settles. An aborted signal
  makes the \<open>fetch\<close> reject with \<open>AbortError\<close>; that, a response that is not \<open>ok\<close> and a
  transport failure all leave the slot alone. In every case the \<open>finally\<close> block sets
  \<open>prefetchAbortController\<close> to \<open>null\<close>.
\<close>

definition prefetchNextPage_resume :: "request \<Rightarrow> int \<Rightarrow> response \<Rightarrow> state \<Rightarrow> state" where
  "prefetchNextPage_resume r nextPage resp s0 =
     (let s = s0\<lparr>pending := remove1 r (pending s0)\<rparr>
      in if r_signal r \<in> abortedSignals s then s\<lparr>prefetchAbortController := None\<rparr>
         else
           case resp of
             Ok data \<Rightarrow>
               s\<lparr>prefetchCache := Some \<lparr>c_queryKey = r_url r, c_data = data, c_page = nextPage\<rparr>,
                 prefetchAbortController := None\<rparr>
           | NotOk status \<Rightarrow> s\<lparr>prefetchAbortController := None\<rparr>
           | Rejected msg \<Rightarrow> s\<lparr>prefetchAbortController := None\<rparr>)"

subsection \<open>Choosing the pagination mode and rendering a page\<close>

text \<open>\<open>Math.ceil(a / b)\<close> on integers, for a positive \<open>b\<close>.\<close>

definition mathCeilDiv :: "int \<Rightarrow> int \<Rightarrow> int" where
  "mathCeilDiv a b = - ((- a) div b)"

text \<open>
  The block of \<open>fetchProducts\<close> that handles a page's data. It occurs twice, in the
  cache branch and after the network response, with the same statements up to the
  prefetch that follows (the second reads \<open>data.products || []\<close>, which is
  \<open>data.products\<close> for an array); it returns \<open>hasMore\<close> with the new state. In the
  branch for a \<open>null\<close> total the script sets \<open>isLoadMoreMode\<close> before it reads it in
  \<open>shouldAppend\<close>.
\<close>

definition renderResult :: "pageData \<Rightarrow> state \<Rightarrow> bool \<times> state" where
  "renderResult data s =
     (let products = d_products data;
          totalItems = d_total data
      in case totalItems of
           None \<Rightarrow>
             (let s1 = s\<lparr>isLoadMoreMode := True\<rparr>;
                  hasMore = (int (length products) = itemsPerPage);
                  shouldAppend = (currentPage s1 > 1 \<and> isLoadMoreMode s1)
              in (hasMore,
                  renderPagination None hasMore (populateProductsTable products shouldAppend s1)))
         | Some n \<Rightarrow>
             (let s1 = s\<lparr>isLoadMoreMode := False\<rparr>;
                  totalPages = mathCeilDiv n itemsPerPage;
                  hasMore = (currentPage s1 < totalPages)
              in (hasMore,
                  renderPagination (Some totalPages) hasMore
                    (populateProductsTable products False s1))))"

subsection \<open>\<open>fetchProducts\<close>\<close>

text \<open>The test of the cache branch: \<open>useCache && prefetchCache && prefetchCache.queryKey === queryKey\<close>.\<close>

definition cacheHit :: "bool \<Rightarrow> params \<Rightarrow> state \<Rightarrow> bool" where
  "cacheHit useCache queryKey s =
     (useCache \<and> (case prefetchCache s of None \<Rightarrow> False | Some slot \<Rightarrow> c_queryKey slot = queryKey))"

text \<open>The cache branch: use the slot's data, clear the slot, render, prefetch, return.\<close>

definition fetchProducts_hit :: "prefetchSlot \<Rightarrow> state \<Rightarrow> state" where
  "fetchProducts_hit slot s =
     (let data = c_data slot;
          s1 = s\<lparr>prefetchCache := None\<rparr>
      in prefetchNextPage (snd (renderResult data s1)))"

text \<open>
  The rest of \<open>fetchProducts\<close> up to its \<open>await fetch(...)\<close>: a short search term sets the
  100 ms timeout that will show the guidance row and returns; otherwise the request is
  issued with the signal of the controller created at the top of the function.
\<close>

definition fetchProducts_miss :: "bool \<Rightarrow> nat \<Rightarrow> params \<Rightarrow> state \<Rightarrow> state" where
  "fetchProducts_miss showLoading controller queryKey s0 =
     (let searchTerm = trim (searchInput s0);
          searchType = searchTypeFilter s0;
          statusF = statusFilter s0;
          skip = (currentPage s0 - 1) * itemsPerPage;
          s = s0\<lparr>currentQueryKey := Some queryKey\<rparr>
      in if searchTerm \<noteq> [] \<and> length searchTerm < MIN_SEARCH_LENGTH
         then
           (let s1 = (if showLoading then showLoadingState s else s)
            in s1\<lparr>guidanceTimers := guidanceTimers s1 @ [clock s1 + 100]\<rparr>)
         else
           (let ps = buildParams skip searchTerm searchType statusF;
                s1 = (if showLoading then showLoadingState s else s)
            in s1\<lparr>pending := pending s1 @
                     [\<lparr>r_signal = controller, r_url = ps, r_kind = Authoritative\<rparr>]\<rparr>))"

definition fetchProducts :: "bool \<Rightarrow> bool \<Rightarrow> state \<Rightarrow> state" where
  "fetchProducts showLoading useCache s0 =
     (let s1 = (case currentSearchAbortController s0 of None \<Rightarrow> s0 | Some c \<Rightarrow> abortSignal c s0);
          controller = nextController s1;
          s = s1\<lparr>currentSearchAbortController := Some controller,
                 nextController := controller + 1\<rparr>;
          queryKey = getQueryKey (currentPage s) s
      in case (if useCache then prefetchCache s else None) of
           None \<Rightarrow> fetchProducts_miss showLoading controller queryKey s
         | Some slot \<Rightarrow>
             if c_queryKey slot = queryKey then fetchProducts_hit slot s
             else fetchProducts_miss showLoading controller queryKey s)"

text \<open>The callback of the 100 ms timeout of the short-search branch.\<close>

definition guidanceTimeout :: "state \<Rightarrow> state" where
  "guidanceTimeout s = hideLoadingState (s\<lparr>tbody := [GuidanceRow]\<rparr>)"

text \<open>
  The rest of \<open>fetchProducts\<close>, run when its request \<open>r\<close> settles. With an aborted signal
  the \<open>fetch\<close> rejects with \<open>AbortError\<close> and the \<open>catch\<close> block returns at once. A response
  that is not \<open>ok\<close> throws, and it and a transport failure reach the rest of the \<open>catch\<close>
  block. In every case the \<open>finally\<close> block sets \<open>currentSearchAbortController\<close> to \<open>null\<close>.
\<close>

definition fetchProducts_resume :: "request \<Rightarrow> response \<Rightarrow> state \<Rightarrow> state" where
  "fetchProducts_resume r resp s0 =
     (let s = s0\<lparr>pending := remove1 r (pending s0)\<rparr>
      in if r_signal r \<in> abortedSignals s then s\<lparr>currentSearchAbortController := None\<rparr>
         else
           case resp of
             Ok data \<Rightarrow>
               (let (hasMore, s1) = renderResult data s;
                    s2 = (if hasMore then prefetchNextPage s1 else s1);
                    s3 = hideLoadingState s2
                in s3\<lparr>currentSearchAbortController := None\<rparr>)
           | NotOk status \<Rightarrow>
               (hideLoadingState s)\<lparr>tbody := [FailedRow (HttpError status)],
                                    currentSearchAbortController := None\<rparr>
           | Rejected msg \<Rightarrow>
               (hideLoadingState s)\<lparr>tbody := [FailedRow (TransportError msg)],
                                    currentSearchAbortController := None\<rparr>)"

section \<open>Handlers\<close>

text \<open>
  \<open>if (prefetchAbortController) prefetchAbortController.abort()\<close>, which every handler
  that invalidates the prefetch does after \<open>prefetchCache = null\<close>.
\<close>

definition abortPrefetch :: "state \<Rightarrow> state" where
  "abortPrefetch s = (case prefetchAbortController s of None \<Rightarrow> s | Some c \<Rightarrow> abortSignal c s)"

definition applyFilters :: "state \<Rightarrow> state" where
  "applyFilters s0 =
     (let s = s0\<lparr>searchDebounceTimer := None\<rparr>;
          newQueryKey = getQueryKey (currentPage s) s;
          s1 = (if Some newQueryKey \<noteq> currentQueryKey s
                then (abortPrefetch (s\<lparr>prefetchCache := None\<rparr>))\<lparr>isLoadMoreMode := False\<rparr>
                else s)
      in fetchProducts True True s1)"

definition loadMore :: "state \<Rightarrow> state" where
  "loadMore s = fetchProducts False True (s\<lparr>currentPage := currentPage s + 1\<rparr>)"

text \<open>
  \<open>debouncedSearch\<close>: \<open>clearTimeout\<close> of the pending timer; page 1; the slot cleared and
  the held prefetch controller aborted; the new timer, due in 400 ms.
\<close>

definition debouncedSearch :: "state \<Rightarrow> state" where
  "debouncedSearch s0 =
     (let s = s0\<lparr>searchDebounceTimer := None\<rparr>;
          s1 = s\<lparr>currentPage := 1\<rparr>;
          s2 = abortPrefetch (s1\<lparr>prefetchCache := None\<rparr>);
          s3 = s2\<lparr>isLoadMoreMode := False\<rparr>
      in s3\<lparr>searchDebounceTimer := Some (clock s3 + SEARCH_DEBOUNCE_MS)\<rparr>)"

text \<open>The timer's callback: \<open>fetchProducts(true); searchDebounceTimer = null\<close>.\<close>

definition debounceTimeout :: "state \<Rightarrow> state" where
  "debounceTimeout s = (fetchProducts True True s)\<lparr>searchDebounceTimer := None\<rparr>"

text \<open>The \<open>input\<close> event of the search box: the box now holds \<open>v\<close>.\<close>

definition searchInput_input :: "string \<Rightarrow> state \<Rightarrow> state" where
  "searchInput_input v s = debouncedSearch (s\<lparr>searchInput := v\<rparr>)"

text \<open>The body shared, statement for statement, by the two \<open>change\<close> handlers.\<close>

definition filterChanged :: "state \<Rightarrow> state" where
  "filterChanged s0 =
     (let s = s0\<lparr>currentPage := 1\<rparr>;
          s1 = s\<lparr>searchDebounceTimer := None\<rparr>;
          s2 = abortPrefetch (s1\<lparr>prefetchCache := None\<rparr>);
          s3 = s2\<lparr>isLoadMoreMode := False\<rparr>
      in fetchProducts True True s3)"

definition searchTypeFilter_change :: "string \<Rightarrow> state \<Rightarrow> state" where
  "searchTypeFilter_change v s = filterChanged (s\<lparr>searchTypeFilter := v\<rparr>)"

definition statusFilter_change :: "string \<Rightarrow> state \<Rightarrow> state" where
  "statusFilter_change v s = filterChanged (s\<lparr>statusFilter := v\<rparr>)"

text \<open>
  What the handlers of a finished create, update, delete and bulk delete do with the
  list: \<open>prefetchCache = null; await fetchProducts()\<close>.
\<close>

definition mutationDone :: "state \<Rightarrow> state" where
  "mutationDone s = fetchProducts True True (s\<lparr>prefetchCache := None\<rparr>)"

text \<open>A click on a child of \<open>#pagination\<close>; a disabled button receives no click.\<close>

fun clickElem :: "paginationElem \<Rightarrow> state \<Rightarrow> state" where
  "clickElem LoadMoreBtn s = loadMore s"
| "clickElem (PrevBtn disabled) s =
     (if disabled then s
      else if currentPage s > 1 then applyFilters (s\<lparr>currentPage := currentPage s - 1\<rparr>)
      else s)"
| "clickElem (PageBtn page active) s = applyFilters (s\<lparr>currentPage := page\<rparr>)"
| "clickElem EllipsisSpan s = s"
| "clickElem (NextBtn disabled totalPages) s =
     (if disabled then s
      else if currentPage s < totalPages then applyFilters (s\<lparr>currentPage := currentPage s + 1\<rparr>)
      else s)"

section \<open>Timers\<close>

text \<open>
  The browser's timer queue, for the two kinds of timeout the script sets. A timeout
  runs its callback at its due time (at once if it is overdue), earlier ones first.
  \<open>runGuidance isDue\<close> runs the guidance timeouts selected by \<open>isDue\<close>, in the order of
  their due times, and removes them from the queue.
\<close>

definition fireGuidance :: "nat list \<Rightarrow> state \<Rightarrow> state" where
  "fireGuidance due s = fold (\<lambda>t s'. guidanceTimeout (s'\<lparr>clock := max (clock s') t\<rparr>)) (sort due) s"

definition runGuidance :: "(nat \<Rightarrow> bool) \<Rightarrow> state \<Rightarrow> state" where
  "runGuidance isDue s =
     fireGuidance (filter isDue (guidanceTimers s))
       (s\<lparr>guidanceTimers := filter (\<lambda>t. \<not> isDue t) (guidanceTimers s)\<rparr>)"

text \<open>
  \<open>d\<close> milliseconds pass with no other event. If the debounce timeout falls due, the
  guidance timeouts due before it run first, then its callback, then the guidance
  timeouts due by the end of the period (the callback may have set one). A guidance
  timeout due at the same instant as the debounce timeout was set 300 ms after it and
  runs after it.
\<close>

definition elapse :: "nat \<Rightarrow> state \<Rightarrow> state" where
  "elapse d s =
     (let target = clock s + d
      in case searchDebounceTimer s of
           None \<Rightarrow> (runGuidance (\<lambda>t. t \<le> target) s)\<lparr>clock := target\<rparr>
         | Some due \<Rightarrow>
             if due \<le> target
             then
               (let s1 = runGuidance (\<lambda>t. t < due) s;
                    s2 = debounceTimeout (s1\<lparr>clock := max (clock s1) due\<rparr>);
                    s3 = runGuidance (\<lambda>t. t \<le> target) s2
                in s3\<lparr>clock := target\<rparr>)
             else (runGuidance (\<lambda>t. t \<le> target) s)\<lparr>clock := target\<rparr>)"

section \<open>Events\<close>

text \<open>
  What can happen to the page: it has loaded (\<open>DOMContentLoaded\<close> calls
  \<open>fetchProducts(true)\<close>); the user types, changes a filter or clicks a pagination
  element that is on the page; a product was created, changed or deleted; time passes;
  the request that was given signal \<open>c\<close> settles. An event that cannot happen in the
  state (a click on an element that is not there, a request that is not in flight)
  changes nothing.
\<close>

datatype event =
    PageLoad
  | Input string
  | SearchTypeChange string
  | StatusChange string
  | Click paginationElem
  | MutationDone
  | Elapse nat
  | Settle nat response

definition step :: "event \<Rightarrow> state \<Rightarrow> state" where
  "step e s =
     (case e of
        PageLoad \<Rightarrow> fetchProducts True True s
      | Input v \<Rightarrow> searchInput_input v s
      | SearchTypeChange v \<Rightarrow> searchTypeFilter_change v s
      | StatusChange v \<Rightarrow> statusFilter_change v s
      | Click el \<Rightarrow> (if el \<in> set (pagination s) then clickElem el s else s)
      | MutationDone \<Rightarrow> mutationDone s
      | Elapse d \<Rightarrow> elapse d s
      | Settle c resp \<Rightarrow>
          (case find (\<lambda>r. r_signal r = c) (pending s) of
             None \<Rightarrow> s
           | Some r \<Rightarrow>
               (case r_kind r of
                  Authoritative \<Rightarrow> fetchProducts_resume r resp s
                | Prefetch nextPage \<Rightarrow> prefetchNextPage_resume r nextPage resp s)))"

definition runEvents :: "event list \<Rightarrow> state \<Rightarrow> state" where
  "runEvents es s = fold step es s"

text \<open>
  The authoritative requests that are in flight and whose signal has not been aborted,
  and the same for prefetch requests.
\<close>

definition liveAuthoritative :: "state \<Rightarrow> request list" where
  "liveAuthoritative s =
     filter (\<lambda>r. r_kind r = Authoritative \<and> r_signal r \<notin> abortedSignals s) (pending s)"

definition livePrefetch :: "state \<Rightarrow> request list" where
  "livePrefetch s =
     filter (\<lambda>r. r_kind r \<noteq> Authoritative \<and> r_signal r \<notin> abortedSignals s) (pending s)"

section \<open>The progress handlers of the upload form\<close>

text \<open>
  The variables the upload's handlers close over: \<open>lastProductRefresh\<close>, whether the
  \<open>refreshInterval\<close> is still set and whether the \<open>eventSource\<close> is still open.
  \<open>refreshLog\<close> is not a variable of the script: it records, for each refresh that went
  through one of the two rate checks, the \<open>Date.now()\<close> it saw and which check it was.
  The progress bar and the status texts are left out.
\<close>

datatype refreshSource = IntervalTick | ProgressMessage

record uploadJob =
  lastProductRefresh :: int
  refreshInterval :: bool
  eventSource :: bool
  refreshLog :: "(int \<times> refreshSource) list"

definition PRODUCT_REFRESH_INTERVAL :: int where
  "PRODUCT_REFRESH_INTERVAL = 2000"

definition startJob :: uploadJob where
  "startJob = \<lparr> lastProductRefresh = 0, refreshInterval = True, eventSource = True,
                refreshLog = [] \<rparr>"

text \<open>The parsed \<open>event.data\<close> of a progress message.\<close>

record progressData =
  pd_status :: string
  pd_message :: string
  pd_progress :: int

text \<open>The callback of \<open>setInterval\<close>; \<open>now\<close> is what \<open>Date.now()\<close> returns.\<close>

fun refreshIntervalTick :: "int \<Rightarrow> uploadJob \<times> state \<Rightarrow> uploadJob \<times> state" where
  "refreshIntervalTick now (u, s) =
     (if now - lastProductRefresh u \<ge> PRODUCT_REFRESH_INTERVAL
      then (u\<lparr>lastProductRefresh := now, refreshLog := refreshLog u @ [(now, IntervalTick)]\<rparr>,
            fetchProducts False False (s\<lparr>prefetchCache := None\<rparr>))
      else (u, s))"

text \<open>\<open>eventSource.onmessage\<close> for a message that parses.\<close>

fun eventSource_onmessage :: "int \<Rightarrow> progressData \<Rightarrow> uploadJob \<times> state \<Rightarrow> uploadJob \<times> state" where
  "eventSource_onmessage now d (u, s) =
     (let status = (if pd_status d \<noteq> [] then pd_status d else ''unknown'');
          progress = (if pd_progress d \<noteq> 0 then pd_progress d else 0);
          (u1, s1) =
            (if status = ''processing'' \<or> status = ''queued''
             then
               (if status = ''processing'' \<and> progress > 0
                then
                  (if now - lastProductRefresh u \<ge> 1000
                   then (u\<lparr>lastProductRefresh := now,
                            refreshLog := refreshLog u @ [(now, ProgressMessage)]\<rparr>,
                         fetchProducts False False (s\<lparr>prefetchCache := None\<rparr>))
                   else (u, s))
                else (u, s))
             else (u, s))
      in if status = ''complete'' \<or> status = ''failed''
         then
           (let u2 = u1\<lparr>refreshInterval := False, eventSource := False\<rparr>
            in if status = ''complete''
               then (u2, fetchProducts True True (s1\<lparr>prefetchCache := None\<rparr>))
               else (u2, s1))
         else (u1, s1))"

text \<open>\<open>eventSource.onerror\<close>.\<close>

fun eventSource_onerror :: "uploadJob \<times> state \<Rightarrow> uploadJob \<times> state" where
  "eventSource_onerror (u, s) = (u\<lparr>refreshInterval := False, eventSource := False\<rparr>, s)"

text \<open>
  The events of an upload after its progress stream was opened. The interval's callback
  runs only while the interval is set, the stream's handlers only while it is open.
\<close>

datatype syncEvent = Tick int | Message int progressData | StreamError

fun syncStep :: "syncEvent \<Rightarrow> uploadJob \<times> state \<Rightarrow> uploadJob \<times> state" where
  "syncStep (Tick now) (u, s) = (if refreshInterval u then refreshIntervalTick now (u, s) else (u, s))"
| "syncStep (Message now d) (u, s) = (if eventSource u then eventSource_onmessage now d (u, s) else (u, s))"
| "syncStep StreamError (u, s) = (if eventSource u then eventSource_onerror (u, s) else (u, s))"

definition runSync :: "syncEvent list \<Rightarrow> uploadJob \<times> state \<Rightarrow> uploadJob \<times> state" where
  "runSync es us = fold syncStep es us"

section \<open>Notions used in the statements\<close>

text \<open>
  The test \<open>searchTerm && searchTerm.length < MIN_SEARCH_LENGTH\<close> on the trimmed content
  of the search box.
\<close>

definition tooShort :: "string \<Rightarrow> bool" where
  "tooShort v = (trim v \<noteq> [] \<and> length (trim v) < MIN_SEARCH_LENGTH)"

definition shortTerm :: "state \<Rightarrow> bool" where
  "shortTerm s = tooShort (searchInput s)"

text \<open>
  The state after the first two statements of \<open>fetchProducts\<close>: the held controller
  aborted, a new one stored.
\<close>

definition afterPrologue :: "state \<Rightarrow> state" where
  "afterPrologue s0 =
     (let s1 = (case currentSearchAbortController s0 of None \<Rightarrow> s0 | Some c \<Rightarrow> abortSignal c s0)
      in s1\<lparr>currentSearchAbortController := Some (nextController s1),
            nextController := nextController s1 + 1\<rparr>)"

text \<open>
  The refresh log of an upload respects the rate limit when every entry comes at least
  \<open>minGap\<close> after the entry before it (after \<open>prev\<close> for the first): 2000 ms for a refresh
  made by the interval, 1000 ms for one made by a progress message.
\<close>

definition minGap :: "refreshSource \<Rightarrow> int" where
  "minGap src = (case src of IntervalTick \<Rightarrow> 2000 | ProgressMessage \<Rightarrow> 1000)"

fun gapsOk :: "int \<Rightarrow> (int \<times> refreshSource) list \<Rightarrow> bool" where
  "gapsOk prev [] = True"
| "gapsOk prev ((t, src) # rest) = (t - prev \<ge> minGap src \<and> gapsOk t rest)"

definition lastTime :: "int \<Rightarrow> (int \<times> refreshSource) list \<Rightarrow> int" where
  "lastTime prev entries = (if entries = [] then prev else fst (last entries))"

text \<open>A progress message with status \<open>processing\<close> and a positive progress.\<close>

fun isProgressing :: "syncEvent \<Rightarrow> bool" where
  "isProgressing (Message now d) = (pd_status d = ''processing'' \<and> pd_progress d > 0)"
| "isProgressing (Tick now) = False"
| "isProgressing StreamError = False"

definition onlyTicks :: "(int \<times> refreshSource) list \<Rightarrow> bool" where
  "onlyTicks entries = list_all (\<lambda>e. snd e = IntervalTick) entries"

definition jobInv :: "uploadJob \<Rightarrow> bool" where
  "jobInv u = (gapsOk 0 (refreshLog u) \<and> lastProductRefresh u = lastTime 0 (refreshLog u))"

text \<open>
  A burst of keystrokes after a first one: each pair is the time since the keystroke
  before it and the content of the search box after it.
\<close>

fun burst :: "(nat \<times> string) list \<Rightarrow> state \<Rightarrow> state" where
  "burst [] s = s"
| "burst ((gap, v) # ks) s = burst ks (searchInput_input v (elapse gap s))"

text \<open>What a burst needs of the state a keystroke leaves, with the values it keeps fixed.\<close>

definition burstInv :: "request list \<Rightarrow> nat \<Rightarrow> string \<Rightarrow> string \<Rightarrow> string \<Rightarrow> state \<Rightarrow> bool" where
  "burstInv P N T F v st =
     (pending st = P \<and> nextController st = N \<and> searchTypeFilter st = T \<and> statusFilter st = F
      \<and> searchInput st = v \<and> searchDebounceTimer st = Some (clock st + SEARCH_DEBOUNCE_MS)
      \<and> prefetchCache st = None \<and> currentPage st = 1)"

section \<open>Sample data\<close>

text \<open>A product with identifier \<open>i\<close>, and a response holding the products \<open>a\<close> to \<open>b\<close>.\<close>

definition sampleProduct :: "int \<Rightarrow> product" where
  "sampleProduct i =
     \<lparr> p_id = i, p_sku = ''SKU'', p_name = ''Name'', p_description = None, p_active = True \<rparr>"

definition samplePage :: "int option \<Rightarrow> int \<Rightarrow> int \<Rightarrow> pageData" where
  "samplePage t a b = \<lparr> d_total = t, d_products = map sampleProduct [a..b] \<rparr>"

text \<open>The product shown by a row of the table, if it is a product row.\<close>

fun rowId :: "tbodyRow \<Rightarrow> int option" where
  "rowId (ProductRow r) = Some (data_id r)"
| "rowId LoadingRow = None"
| "rowId NoProductsRow = None"
| "rowId GuidanceRow = None"
| "rowId (FailedRow e) = None"

text \<open>
  The status filter is changed twice while the first request is in flight (the events of
  the two requests in flight at once), and the newest request, for the inactive
  products, is answered with the products 21 to 25.
\<close>

definition supersedeTrace :: "event list" where
  "supersedeTrace =
     [PageLoad, StatusChange ''true'', Settle 0 (Rejected []), StatusChange ''false'',
      Settle 2 (Ok (samplePage (Some 5) 21 25))]"

text \<open>A description with each of the five characters that are escaped.\<close>

definition sampleDescription :: string where
  "sampleDescription = ''R&D <b>'' @ [CHR 0x22] @ ''5'' @ [CHR 0x27] @ ''&amp;''"

text \<open>The events of a short upload: two ticks, progress messages, completion.\<close>

definition sampleUpload :: "syncEvent list" where
  "sampleUpload =
     [Tick 2000,
      Message 2500 \<lparr>pd_status = ''queued'', pd_message = [], pd_progress = 0\<rparr>,
      Message 3000 \<lparr>pd_status = ''processing'', pd_message = [], pd_progress = 10\<rparr>,
      Message 3400 \<lparr>pd_status = ''processing'', pd_message = [], pd_progress = 20\<rparr>,
      Tick 4000,
      Message 4100 \<lparr>pd_status = ''processing'', pd_message = [], pd_progress = 60\<rparr>,
      Tick 6000,
      Message 6100 \<lparr>pd_status = ''complete'', pd_message = [], pd_progress = 100\<rparr>]"

definition queuedUpload :: "syncEvent list" where
  "queuedUpload =
     [Tick 2000,
      Message 2500 \<lparr>pd_status = ''queued'', pd_message = [], pd_progress = 0\<rparr>,
      Tick 4000,
      Message 4100 \<lparr>pd_status = ''processing'', pd_message = [], pd_progress = 0\<rparr>]"

text \<open>
  A prefetch escapes the keystroke's abort: the page loads in load-more mode and
  prefetches page 2; a product is changed and the list is fetched again, which starts a
  second prefetch of page 2 and aborts the first; the first settles, and its \<open>finally\<close>
  block clears the controller variable that holds the second one's controller by then.
  The user types \<open>a\<close>; the second prefetch, not aborted, fills the slot; the debounce
  timeout and the guidance timeout run.
\<close>

definition staleSlotState :: state where
  "staleSlotState =
     runEvents [PageLoad, Settle 0 (Ok (samplePage None 1 10)), MutationDone,
                Settle 2 (Ok (samplePage None 1 10)), Settle 1 (Rejected []),
                Input ''a'', Settle 3 (Ok (samplePage (Some 25) 11 20)),
                Elapse 400, Elapse 100] initialState"

text \<open>
  The events after which a prefetch is in flight that no variable holds (as for
  \<open>staleSlotState\<close>) and the status filter is changed; and the events that follow: the
  filter is changed back, the escaped prefetch fills the slot, the list is shown and
  Load More is clicked.
\<close>

definition escapeTrace :: "event list" where
  "escapeTrace =
     [PageLoad, Settle 0 (Ok (samplePage None 1 10)), MutationDone,
      Settle 2 (Ok (samplePage None 1 10)), Settle 1 (Rejected []),
      StatusChange ''true'']"

definition consumeTrace :: "event list" where
  "consumeTrace =
     [StatusChange [], Settle 4 (Rejected []), Settle 3 (Ok (samplePage None 111 120)),
      Settle 5 (Ok (samplePage None 1 10)), Click LoadMoreBtn]"

text \<open>The page after it has loaded a listing of five products, all on one page.\<close>

definition loadedState :: state where
  "loadedState = runEvents [PageLoad, Settle 0 (Ok (samplePage (Some 5) 1 5))] initialState"

section \<open>Properties\<close>

subsection \<open>Escaping\<close>

lemma replaceAll_Nil: "replaceAll c r [] = []"
  by (simp add: replaceAll_def)

lemma replaceAll_append: "replaceAll c r (xs @ ys) = replaceAll c r xs @ replaceAll c r ys"
  by (simp add: replaceAll_def)

lemma replaceAll_Cons: "replaceAll c r (x # xs) = (if x = c then r else [x]) @ replaceAll c r xs"
  by (simp add: replaceAll_def)

text \<open>
  The five passes treat the first character of a string on its own: since \<open>&\<close> is
  replaced first, the later passes meet no \<open>&\<close>, \<open><\<close>, \<open>>\<close> or quote in an entity that an
  earlier pass wrote.
\<close>

lemma escapeDescription_Cons: "escapeDescription (x # xs) = htmlEntity x @ escapeDescription xs"
  by (simp add: escapeDescription_def htmlEntity_def replaceAll_Cons replaceAll_append
      replaceAll_Nil)

lemma escapeDescription_Nil: "escapeDescription [] = []"
  by (simp add: escapeDescription_def replaceAll_Nil)

lemma escapeDescription_eq: "escapeDescription d = escapedBySpec d"
  by (induction d) (simp_all add: escapeDescription_Cons escapeDescription_Nil escapedBySpec_def)

text \<open>
  C10. A product whose description is the string \<open>d\<close> is rendered as a row whose
  description cell holds \<open>d\<close> with each of \<open>&\<close>, \<open><\<close>, \<open>>\<close>, the double and the
  single quote replaced by its entity and nothing escaped twice, and whose click handler
  puts \<open>d\<close> itself into the description modal (there is no handler when \<open>d\<close> is
  empty); a product without description gets an empty cell and no handler. The SKU and
  the name are inserted as they are, whatever characters they hold. The rows of the
  table after \<open>populateProductsTable\<close> are these rows, after the old rows when
  appending.
\<close>

theorem description_escaped:
  "renderRow \<lparr> p_id = i, p_sku = sku, p_name = name, p_description = Some d, p_active = a \<rparr> =
     \<lparr> cell_sku = sku, cell_name = name,
       cell_description = escapedBySpec d,
       cell_active = (if a then ''Yes'' else ''No''),
       data_id = i,
       descriptionClick = (if d = [] then None else Some d) \<rparr>
   \<and> renderRow \<lparr> p_id = i, p_sku = sku, p_name = name, p_description = None, p_active = a \<rparr> =
     \<lparr> cell_sku = sku, cell_name = name,
       cell_description = [],
       cell_active = (if a then ''Yes'' else ''No''),
       data_id = i,
       descriptionClick = None \<rparr>
   \<and> renderRow \<lparr> p_id = 7, p_sku = ''<i>7</i>'', p_name = ''A&B'',
                 p_description = Some sampleDescription, p_active = False \<rparr> =
     \<lparr> cell_sku = ''<i>7</i>'', cell_name = ''A&B'',
       cell_description = ''R&amp;D &lt;b&gt;&quot;5&#039;&amp;amp;'',
       cell_active = ''No'',
       data_id = 7,
       descriptionClick = Some sampleDescription \<rparr>
   \<and> tbody (populateProductsTable products appendRows s) =
       (if products = [] then (if appendRows then tbody s else [NoProductsRow])
        else (if appendRows then tbody s else []) @ map (\<lambda>p. ProductRow (renderRow p)) products)"
proof (intro conjI)
  show "renderRow \<lparr> p_id = 7, p_sku = ''<i>7</i>'', p_name = ''A&B'',
                 p_description = Some sampleDescription, p_active = False \<rparr> =
     \<lparr> cell_sku = ''<i>7</i>'', cell_name = ''A&B'',
       cell_description = ''R&amp;D &lt;b&gt;&quot;5&#039;&amp;amp;'',
       cell_active = ''No'',
       data_id = 7,
       descriptionClick = Some sampleDescription \<rparr>"
    by code_simp
qed (simp_all add: renderRow_def descriptionOf_def populateProductsTable_def
      escapeDescription_eq escapedBySpec_def Let_def)

subsection \<open>The page window\<close>

text \<open>
  C6. For ten pages and current page 5 the array \<open>pagesToShow\<close> holds two ellipsis
  entries, but the \<open>Set\<close> that removes duplicates keeps only the first of the two equal
  strings: the rendered sequence is 1, ellipsis, 3 to 7, 10, with no ellipsis between 7
  and 10.
\<close>

theorem page_window_10_5:
  "pagesToShow 10 5 =
     [PageNum 1, Dots, PageNum 3, PageNum 4, PageNum 5, PageNum 6, PageNum 7, Dots, PageNum 10]
   \<and> uniquePagesToShow 10 5 =
     [PageNum 1, Dots, PageNum 3, PageNum 4, PageNum 5, PageNum 6, PageNum 7, PageNum 10]
   \<and> pagination (renderPagination (Some 10) True (initialState\<lparr>currentPage := 5\<rparr>)) =
     [PrevBtn False, PageBtn 1 False, EllipsisSpan, PageBtn 3 False, PageBtn 4 False,
      PageBtn 5 True, PageBtn 6 False, PageBtn 7 False, PageBtn 10 False, NextBtn False 10]"
  by code_simp

subsection \<open>One authoritative request at a time\<close>

text \<open>
  C1. The page loads and the status filter is changed twice. The second request aborts
  the first; the first then settles with \<open>AbortError\<close>, and its \<open>finally\<close> block sets
  \<open>currentSearchAbortController\<close> to \<open>null\<close> although it holds the second request's
  controller by then. The third call finds no controller to abort: the second and the
  third request are both in flight, neither aborted.
\<close>

theorem two_authoritative_requests_in_flight:
  "liveAuthoritative
     (runEvents [PageLoad, StatusChange ''true'', Settle 0 (Rejected []), StatusChange ''false'']
        initialState) =
     [\<lparr>r_signal = 1,
        r_url = [(''skip'', Num 0), (''limit'', Num 10), (''active'', Bool True)],
        r_kind = Authoritative\<rparr>,
      \<lparr>r_signal = 2,
        r_url = [(''skip'', Num 0), (''limit'', Num 10), (''active'', Bool False)],
        r_kind = Authoritative\<rparr>]"
  by code_simp

subsection \<open>Pagination mode and the visible rows\<close>

lemma mathCeilDiv_ceiling: "0 < b \<Longrightarrow> mathCeilDiv a b = \<lceil>real_of_int a / real_of_int b\<rceil>"
  unfolding mathCeilDiv_def
  by (metis ceiling_def floor_divide_of_int_eq minus_divide_left of_int_minus)

text \<open>
  C5. The list is in numbered mode on page 2 of 3 and shows the products 11 to 20. A
  refresh tick of a running upload asks for the page again, and this time the response
  has a \<open>null\<close> total: the list changes to load-more mode, and because
  \<open>isLoadMoreMode\<close> is set before \<open>shouldAppend\<close> reads it, the rows are appended to
  the rows of the numbered page instead of replacing them.
\<close>

theorem mode_switch_appends:
  "(let s = runEvents [PageLoad, Settle 0 (Ok (samplePage (Some 25) 1 10)),
                       Click (NextBtn False 3), Settle 1 (Rejected []),
                       Settle 2 (Ok (samplePage (Some 25) 11 20))] initialState;
        s1 = snd (syncStep (Tick 2000) (startJob, s));
        s2 = step (Settle 4 (Ok (samplePage None 11 20))) s1
    in currentPage s1 = 2 \<and> \<not> isLoadMoreMode s1
       \<and> map rowId (tbody s1) = map Some [11, 12, 13, 14, 15, 16, 17, 18, 19, 20]
       \<and> isLoadMoreMode s2 \<and> pagination s2 = [LoadMoreBtn]
       \<and> map rowId (tbody s2) =
           map Some [11, 12, 13, 14, 15, 16, 17, 18, 19, 20,
                     11, 12, 13, 14, 15, 16, 17, 18, 19, 20])"
  by code_simp

subsection \<open>What the parts of \<open>fetchProducts\<close> leave alone\<close>

lemma renderResult_frame:
  "prefetchCache (snd (renderResult d s)) = prefetchCache s"
  "pending (snd (renderResult d s)) = pending s"
  "searchInput (snd (renderResult d s)) = searchInput s"
  "searchTypeFilter (snd (renderResult d s)) = searchTypeFilter s"
  "statusFilter (snd (renderResult d s)) = statusFilter s"
  "currentPage (snd (renderResult d s)) = currentPage s"
  "nextController (snd (renderResult d s)) = nextController s"
  "abortedSignals (snd (renderResult d s)) = abortedSignals s"
  "prefetchAbortController (snd (renderResult d s)) = prefetchAbortController s"
  "currentSearchAbortController (snd (renderResult d s)) = currentSearchAbortController s"
  "searchDebounceTimer (snd (renderResult d s)) = searchDebounceTimer s"
  "guidanceTimers (snd (renderResult d s)) = guidanceTimers s"
  "clock (snd (renderResult d s)) = clock s"
  "currentQueryKey (snd (renderResult d s)) = currentQueryKey s"
  by (simp_all add: renderResult_def renderPagination_def populateProductsTable_def Let_def
      split: option.splits)

text \<open>What \<open>renderResult\<close> shows depends on the rows shown before and on the page only.\<close>

lemma renderResult_view:
  "tbody s1 = tbody s2 \<Longrightarrow> currentPage s1 = currentPage s2 \<Longrightarrow>
     tbody (snd (renderResult d s1)) = tbody (snd (renderResult d s2))
   \<and> pagination (snd (renderResult d s1)) = pagination (snd (renderResult d s2))"
  by (simp add: renderResult_def renderPagination_def populateProductsTable_def Let_def
      split: option.splits)

lemma prefetchNextPage_frame:
  "prefetchCache (prefetchNextPage s) = prefetchCache s"
  "tbody (prefetchNextPage s) = tbody s"
  "pagination (prefetchNextPage s) = pagination s"
  "searchLoading (prefetchNextPage s) = searchLoading s"
  "isLoadMoreMode (prefetchNextPage s) = isLoadMoreMode s"
  "searchInput (prefetchNextPage s) = searchInput s"
  "searchTypeFilter (prefetchNextPage s) = searchTypeFilter s"
  "statusFilter (prefetchNextPage s) = statusFilter s"
  "currentPage (prefetchNextPage s) = currentPage s"
  "currentSearchAbortController (prefetchNextPage s) = currentSearchAbortController s"
  "searchDebounceTimer (prefetchNextPage s) = searchDebounceTimer s"
  "guidanceTimers (prefetchNextPage s) = guidanceTimers s"
  "clock (prefetchNextPage s) = clock s"
  "currentQueryKey (prefetchNextPage s) = currentQueryKey s"
  by (simp_all add: prefetchNextPage_def abortSignal_def Let_def split: option.splits)

text \<open>When \<open>prefetchNextPage\<close> issues a request, and which.\<close>

lemma prefetchNextPage_pending:
  "pending (prefetchNextPage s) =
     (if shortTerm s \<or> (case prefetchCache s of None \<Rightarrow> False
                          | Some slot \<Rightarrow> c_queryKey slot = getQueryKey (currentPage s + 1) s)
      then pending s
      else pending s @ [\<lparr>r_signal = nextController s,
                          r_url = getQueryKey (currentPage s + 1) s,
                          r_kind = Prefetch (currentPage s + 1)\<rparr>])"
  by (auto simp: prefetchNextPage_def abortSignal_def shortTerm_def tooShort_def getQueryKey_def
      Let_def split: option.splits)

lemma afterPrologue_frame:
  "prefetchCache (afterPrologue s) = prefetchCache s"
  "pending (afterPrologue s) = pending s"
  "searchInput (afterPrologue s) = searchInput s"
  "searchTypeFilter (afterPrologue s) = searchTypeFilter s"
  "statusFilter (afterPrologue s) = statusFilter s"
  "currentPage (afterPrologue s) = currentPage s"
  "tbody (afterPrologue s) = tbody s"
  "pagination (afterPrologue s) = pagination s"
  "searchLoading (afterPrologue s) = searchLoading s"
  "guidanceTimers (afterPrologue s) = guidanceTimers s"
  "clock (afterPrologue s) = clock s"
  "searchDebounceTimer (afterPrologue s) = searchDebounceTimer s"
  "nextController (afterPrologue s) = nextController s + 1"
  "isLoadMoreMode (afterPrologue s) = isLoadMoreMode s"
  by (simp_all add: afterPrologue_def abortSignal_def Let_def split: option.splits)

lemma getQueryKey_cong:
  "searchInput s1 = searchInput s2 \<Longrightarrow> searchTypeFilter s1 = searchTypeFilter s2 \<Longrightarrow>
   statusFilter s1 = statusFilter s2 \<Longrightarrow> getQueryKey p s1 = getQueryKey p s2"
  by (simp add: getQueryKey_def)

lemma getQueryKey_afterPrologue: "getQueryKey p (afterPrologue s) = getQueryKey p s"
  by (simp add: getQueryKey_def afterPrologue_frame)

lemma shortTerm_afterPrologue: "shortTerm (afterPrologue s) = shortTerm s"
  by (simp add: shortTerm_def afterPrologue_frame)

text \<open>\<open>fetchProducts\<close> as its prologue followed by one of its two branches.\<close>

lemma fetchProducts_cases:
  "fetchProducts showLoading useCache s =
     (case (if useCache then prefetchCache s else None) of
        None \<Rightarrow>
          fetchProducts_miss showLoading (nextController s) (getQueryKey (currentPage s) s)
            (afterPrologue s)
      | Some slot \<Rightarrow>
          if c_queryKey slot = getQueryKey (currentPage s) s
          then fetchProducts_hit slot (afterPrologue s)
          else fetchProducts_miss showLoading (nextController s) (getQueryKey (currentPage s) s)
                 (afterPrologue s))"
  by (cases "currentSearchAbortController s")
     (simp_all add: fetchProducts_def afterPrologue_def abortSignal_def getQueryKey_def Let_def
        split: option.splits)

lemma cacheHit_cases:
  "cacheHit useCache k s \<longleftrightarrow>
     (\<exists>slot. (if useCache then prefetchCache s else None) = Some slot \<and> c_queryKey slot = k)"
  by (auto simp: cacheHit_def split: option.splits)

lemma fetchProducts_miss_short:
  "shortTerm s \<Longrightarrow>
     fetchProducts_miss showLoading c k s =
       (if showLoading
        then s\<lparr>currentQueryKey := Some k, tbody := [LoadingRow], searchLoading := True,
               guidanceTimers := guidanceTimers s @ [clock s + 100]\<rparr>
        else s\<lparr>currentQueryKey := Some k, guidanceTimers := guidanceTimers s @ [clock s + 100]\<rparr>)"
  by (simp add: fetchProducts_miss_def shortTerm_def tooShort_def showLoadingState_def Let_def)

lemma fetchProducts_miss_long:
  "\<not> shortTerm s \<Longrightarrow>
     fetchProducts_miss showLoading c k s =
       (if showLoading
        then s\<lparr>currentQueryKey := Some k, tbody := [LoadingRow], searchLoading := True,
               pending := pending s @
                 [\<lparr>r_signal = c, r_url = getQueryKey (currentPage s) s, r_kind = Authoritative\<rparr>]\<rparr>
        else s\<lparr>currentQueryKey := Some k,
               pending := pending s @
                 [\<lparr>r_signal = c, r_url = getQueryKey (currentPage s) s, r_kind = Authoritative\<rparr>]\<rparr>)"
  by (simp add: fetchProducts_miss_def shortTerm_def tooShort_def showLoadingState_def
      getQueryKey_def Let_def)

lemma fetchProducts_hit_eq:
  "fetchProducts_hit slot s = prefetchNextPage (snd (renderResult (c_data slot) (s\<lparr>prefetchCache := None\<rparr>)))"
  by (simp add: fetchProducts_hit_def Let_def)

lemma fetchProducts_hit_short:
  assumes "shortTerm s"
  shows "pending (fetchProducts_hit slot s) = pending s"
proof -
  have "shortTerm (snd (renderResult (c_data slot) (s\<lparr>prefetchCache := None\<rparr>)))"
    using assms by (simp add: shortTerm_def renderResult_frame)
  then show ?thesis
    by (simp add: fetchProducts_hit_eq prefetchNextPage_pending renderResult_frame)
qed

subsection \<open>Serving a page from the prefetch slot\<close>

text \<open>
  When \<open>fetchProducts\<close> is called with \<open>useCache\<close> and the slot holds the key of the
  requested page, the rows and the pagination shown are those of the slot's data, the
  slot is empty afterwards, no authoritative request is issued and no guidance timeout
  is set. \<open>prefetchNextPage\<close> has run, and it has issued the prefetch of the next page
  exactly when the search term is not too short.
\<close>

lemma cache_hit_frame:
  assumes "prefetchCache s = Some slot"
    and "c_queryKey slot = getQueryKey (currentPage s) s"
  shows "prefetchCache (fetchProducts showLoading True s) = None
    \<and> tbody (fetchProducts showLoading True s) = tbody (snd (renderResult (c_data slot) s))
    \<and> pagination (fetchProducts showLoading True s) =
        pagination (snd (renderResult (c_data slot) s))
    \<and> guidanceTimers (fetchProducts showLoading True s) = guidanceTimers s
    \<and> pending (fetchProducts showLoading True s) =
        (if shortTerm s then pending s
         else pending s @ [\<lparr>r_signal = nextController s + 1,
                             r_url = getQueryKey (currentPage s + 1) s,
                             r_kind = Prefetch (currentPage s + 1)\<rparr>])"
proof -
  define s3 where "s3 = snd (renderResult (c_data slot) ((afterPrologue s)\<lparr>prefetchCache := None\<rparr>))"
  have eq: "fetchProducts showLoading True s = prefetchNextPage s3"
    using assms by (simp add: fetchProducts_cases fetchProducts_hit_eq s3_def)
  have view: "tbody s3 = tbody (snd (renderResult (c_data slot) s))"
    "pagination s3 = pagination (snd (renderResult (c_data slot) s))"
    using renderResult_view[of "(afterPrologue s)\<lparr>prefetchCache := None\<rparr>" s "c_data slot"]
    by (simp_all add: s3_def afterPrologue_frame)
  have s3: "prefetchCache s3 = None" "pending s3 = pending s"
    "nextController s3 = nextController s + 1" "searchInput s3 = searchInput s"
    "searchTypeFilter s3 = searchTypeFilter s" "statusFilter s3 = statusFilter s"
    "currentPage s3 = currentPage s" "guidanceTimers s3 = guidanceTimers s"
    by (simp_all add: s3_def renderResult_frame afterPrologue_frame)
  have short: "shortTerm s3 = shortTerm s"
    by (simp add: shortTerm_def s3)
  have k3: "getQueryKey (currentPage s + 1) s3 = getQueryKey (currentPage s + 1) s"
    by (rule getQueryKey_cong) (simp_all add: s3)
  show ?thesis
    unfolding eq
    by (simp add: prefetchNextPage_frame prefetchNextPage_pending view s3 short k3)
qed

text \<open>
  C3. In \<open>staleSlotState\<close> the search box holds \<open>a\<close>, the Load More button is on the
  page and the slot holds the key of page 2, filled by the prefetch that escaped the
  keystroke's abort. The click calls \<open>fetchProducts(false)\<close> for page 2: the slot's key
  is the key of the requested page, the slot's products 11 to 20 are shown and the slot
  is cleared, but \<open>prefetchNextPage\<close> returns at its test of the search term: no
  request is in flight afterwards, no prefetch of page 3 was issued and no controller
  for one created.
\<close>

theorem cache_hit_without_prefetch:
  "LoadMoreBtn \<in> set (pagination staleSlotState)
   \<and> cacheHit True (getQueryKey (currentPage staleSlotState + 1) staleSlotState) staleSlotState
   \<and> step (Click LoadMoreBtn) staleSlotState =
       fetchProducts False True (staleSlotState\<lparr>currentPage := currentPage staleSlotState + 1\<rparr>)
   \<and> currentPage (step (Click LoadMoreBtn) staleSlotState) = 2
   \<and> prefetchCache (step (Click LoadMoreBtn) staleSlotState) = None
   \<and> map rowId (tbody (step (Click LoadMoreBtn) staleSlotState)) =
       map Some [11, 12, 13, 14, 15, 16, 17, 18, 19, 20]
   \<and> pending staleSlotState = []
   \<and> pending (step (Click LoadMoreBtn) staleSlotState) = []
   \<and> prefetchAbortController (step (Click LoadMoreBtn) staleSlotState) = None"
  by code_simp

subsection \<open>Timeouts\<close>

lemma fold_guidance_eq:
  "\<exists>tb sl c. fold (\<lambda>t s'. guidanceTimeout (s'\<lparr>clock := max (clock s') t\<rparr>)) xs s =
     s\<lparr>tbody := tb, searchLoading := sl, clock := c\<rparr>"
proof (induction xs arbitrary: s)
  case Nil
  have "s = s\<lparr>tbody := tbody s, searchLoading := searchLoading s, clock := clock s\<rparr>"
    by simp
  then show ?case
    by (metis fold_simps(1))
next
  case (Cons x xs)
  obtain tb sl c where
    "fold (\<lambda>t s'. guidanceTimeout (s'\<lparr>clock := max (clock s') t\<rparr>)) xs
       (guidanceTimeout (s\<lparr>clock := max (clock s) x\<rparr>)) =
     (guidanceTimeout (s\<lparr>clock := max (clock s) x\<rparr>))\<lparr>tbody := tb, searchLoading := sl, clock := c\<rparr>"
    using Cons.IH by blast
  then have "fold (\<lambda>t s'. guidanceTimeout (s'\<lparr>clock := max (clock s') t\<rparr>)) (x # xs) s =
     s\<lparr>tbody := tb, searchLoading := sl, clock := c\<rparr>"
    by (simp add: guidanceTimeout_def hideLoadingState_def)
  then show ?case
    by blast
qed

text \<open>
  Running guidance timeouts changes the rows, the indicator and the clock, and takes
  the timeouts that ran out of the queue.
\<close>

lemma runGuidance_eq:
  "\<exists>tb sl c. runGuidance isDue s =
     s\<lparr>tbody := tb, searchLoading := sl, clock := c,
       guidanceTimers := filter (\<lambda>t. \<not> isDue t) (guidanceTimers s)\<rparr>"
proof -
  obtain tb sl c where
    "fold (\<lambda>t s'. guidanceTimeout (s'\<lparr>clock := max (clock s') t\<rparr>))
       (sort (filter isDue (guidanceTimers s)))
       (s\<lparr>guidanceTimers := filter (\<lambda>t. \<not> isDue t) (guidanceTimers s)\<rparr>) =
     (s\<lparr>guidanceTimers := filter (\<lambda>t. \<not> isDue t) (guidanceTimers s)\<rparr>)
       \<lparr>tbody := tb, searchLoading := sl, clock := c\<rparr>"
    using fold_guidance_eq by blast
  then have "runGuidance isDue s =
     s\<lparr>tbody := tb, searchLoading := sl, clock := c,
       guidanceTimers := filter (\<lambda>t. \<not> isDue t) (guidanceTimers s)\<rparr>"
    by (simp add: runGuidance_def fireGuidance_def)
  then show ?thesis
    by blast
qed

lemma runGuidance_frame:
  "pending (runGuidance isDue s) = pending s"
  "nextController (runGuidance isDue s) = nextController s"
  "searchTypeFilter (runGuidance isDue s) = searchTypeFilter s"
  "statusFilter (runGuidance isDue s) = statusFilter s"
  "searchInput (runGuidance isDue s) = searchInput s"
  "searchDebounceTimer (runGuidance isDue s) = searchDebounceTimer s"
  "prefetchCache (runGuidance isDue s) = prefetchCache s"
  "currentPage (runGuidance isDue s) = currentPage s"
  "guidanceTimers (runGuidance isDue s) = filter (\<lambda>t. \<not> isDue t) (guidanceTimers s)"
proof -
  obtain tb sl c where
    e: "runGuidance isDue s =
          s\<lparr>tbody := tb, searchLoading := sl, clock := c,
            guidanceTimers := filter (\<lambda>t. \<not> isDue t) (guidanceTimers s)\<rparr>"
    using runGuidance_eq by blast
  show "pending (runGuidance isDue s) = pending s"
    "nextController (runGuidance isDue s) = nextController s"
    "searchTypeFilter (runGuidance isDue s) = searchTypeFilter s"
    "statusFilter (runGuidance isDue s) = statusFilter s"
    "searchInput (runGuidance isDue s) = searchInput s"
    "searchDebounceTimer (runGuidance isDue s) = searchDebounceTimer s"
    "prefetchCache (runGuidance isDue s) = prefetchCache s"
    "currentPage (runGuidance isDue s) = currentPage s"
    "guidanceTimers (runGuidance isDue s) = filter (\<lambda>t. \<not> isDue t) (guidanceTimers s)"
    by (simp_all add: e)
qed

lemma fireGuidance_fold:
  "xs \<noteq> [] \<Longrightarrow>
     tbody (fold (\<lambda>t s'. guidanceTimeout (s'\<lparr>clock := max (clock s') t\<rparr>)) xs s) = [GuidanceRow]
   \<and> \<not> searchLoading (fold (\<lambda>t s'. guidanceTimeout (s'\<lparr>clock := max (clock s') t\<rparr>)) xs s)"
proof (induction xs arbitrary: s)
  case Nil
  then show ?case by simp
next
  case (Cons x xs)
  show ?case
  proof (cases "xs = []")
    case True
    then show ?thesis by (simp add: guidanceTimeout_def hideLoadingState_def)
  next
    case False
    then show ?thesis using Cons.IH by simp
  qed
qed

text \<open>When a guidance timeout runs, the rows end as the guidance row, the indicator off.\<close>

lemma runGuidance_view:
  assumes "t \<in> set (guidanceTimers s)" and "isDue t"
  shows "tbody (runGuidance isDue s) = [GuidanceRow] \<and> \<not> searchLoading (runGuidance isDue s)"
proof -
  from assms have "filter isDue (guidanceTimers s) \<noteq> []"
    by (auto simp: filter_empty_conv)
  then have "sort (filter isDue (guidanceTimers s)) \<noteq> []"
    by (metis length_sort length_0_conv)
  then show ?thesis
    unfolding runGuidance_def fireGuidance_def by (rule fireGuidance_fold)
qed

text \<open>\<open>fetchProducts\<close> takes no guidance timeout out of the queue.\<close>

lemma fetchProducts_keeps_timers:
  assumes "t \<in> set (guidanceTimers s)"
  shows "t \<in> set (guidanceTimers (fetchProducts showLoading useCache s))"
proof -
  have miss: "t \<in> set (guidanceTimers (fetchProducts_miss showLoading c k (afterPrologue s)))" for c k
    using assms
    by (simp add: fetchProducts_miss_def showLoadingState_def afterPrologue_frame Let_def)
  have hit: "t \<in> set (guidanceTimers (fetchProducts_hit slot (afterPrologue s)))" for slot
    using assms
    by (simp add: fetchProducts_hit_eq prefetchNextPage_frame renderResult_frame afterPrologue_frame)
  show ?thesis
    by (simp add: fetchProducts_cases miss hit split: option.splits)
qed

text \<open>
  A guidance timeout due exactly at the end of a period has run when the period ends,
  after the debounce timeout if that ran in the period too: the guidance row is shown.
\<close>

lemma elapse_shows_guidance:
  assumes t: "clock s + d \<in> set (guidanceTimers s)"
  shows "tbody (elapse d s) = [GuidanceRow] \<and> \<not> searchLoading (elapse d s)"
proof -
  have plain: "tbody ((runGuidance (\<lambda>t. t \<le> clock s + d) s)\<lparr>clock := clock s + d\<rparr>) = [GuidanceRow]
      \<and> \<not> searchLoading ((runGuidance (\<lambda>t. t \<le> clock s + d) s)\<lparr>clock := clock s + d\<rparr>)"
    using runGuidance_view[OF t, of "\<lambda>t. t \<le> clock s + d"] by simp
  show ?thesis
  proof (cases "searchDebounceTimer s")
    case None
    then show ?thesis
      using plain by (simp add: elapse_def Let_def)
  next
    case (Some due)
    show ?thesis
    proof (cases "due \<le> clock s + d")
      case False
      then show ?thesis
        using plain Some by (simp add: elapse_def Let_def)
    next
      case True
      define s1 where "s1 = runGuidance (\<lambda>t. t < due) s"
      define s2 where "s2 = debounceTimeout (s1\<lparr>clock := max (clock s1) due\<rparr>)"
      have "clock s + d \<in> set (guidanceTimers (s1\<lparr>clock := max (clock s1) due\<rparr>))"
        using t True by (simp add: s1_def runGuidance_frame)
      then have "clock s + d \<in> set (guidanceTimers s2)"
        by (simp add: s2_def debounceTimeout_def fetchProducts_keeps_timers)
      from runGuidance_view[OF this, of "\<lambda>t. t \<le> clock s + d"]
      have "tbody ((runGuidance (\<lambda>t. t \<le> clock s + d) s2)\<lparr>clock := clock s + d\<rparr>) = [GuidanceRow]
        \<and> \<not> searchLoading ((runGuidance (\<lambda>t. t \<le> clock s + d) s2)\<lparr>clock := clock s + d\<rparr>)"
        by simp
      then show ?thesis
        using Some True by (simp add: elapse_def Let_def s2_def s1_def)
    qed
  qed
qed

subsection \<open>The short search term\<close>

text \<open>
  With a search term that is not empty and shorter than two characters after trimming,
  \<open>fetchProducts\<close> issues no request, whatever its arguments. If moreover the call is
  not served from the prefetch slot, it sets the 100 ms timeout of the guidance row and
  leaves the slot alone, and 100 ms later the table shows the guidance row, with the
  loading indicator off. Typing \<open>a\<close> into the loaded page gives the guidance row and no
  request; typing \<open>ab\<close> after it gives one request, with \<open>search=ab\<close>.
\<close>

lemma short_search_guidance:
  "(shortTerm s \<longrightarrow>
      pending (fetchProducts showLoading useCache s) = pending s
    \<and> (\<not> cacheHit useCache (getQueryKey (currentPage s) s) s \<longrightarrow>
         guidanceTimers (fetchProducts showLoading useCache s) = guidanceTimers s @ [clock s + 100]
       \<and> prefetchCache (fetchProducts showLoading useCache s) = prefetchCache s
       \<and> tbody (elapse 100 (fetchProducts showLoading useCache s)) = [GuidanceRow]
       \<and> \<not> searchLoading (elapse 100 (fetchProducts showLoading useCache s))))
   \<and> tbody (runEvents [Input ''a'', Elapse 400, Elapse 100] loadedState) = [GuidanceRow]
   \<and> pending (runEvents [Input ''a'', Elapse 400, Elapse 100] loadedState) = []
   \<and> pending (runEvents [Input ''a'', Elapse 400, Elapse 100, Input ''ab'', Elapse 400]
                loadedState) =
       [\<lparr>r_signal = 2,
          r_url = [(''skip'', Num 0), (''limit'', Num 10), (''search'', Str ''ab''),
                   (''search_type'', Str ''sku'')],
          r_kind = Authoritative\<rparr>]"
proof (intro impI conjI)
  assume short: "shortTerm s"
  then have sp: "shortTerm (afterPrologue s)"
    by (simp add: shortTerm_afterPrologue)
  show "pending (fetchProducts showLoading useCache s) = pending s"
    by (simp add: fetchProducts_cases fetchProducts_miss_short[OF sp]
        fetchProducts_hit_short[OF sp] afterPrologue_frame split: option.splits)
  assume miss: "\<not> cacheHit useCache (getQueryKey (currentPage s) s) s"
  then have eq: "fetchProducts showLoading useCache s =
      fetchProducts_miss showLoading (nextController s) (getQueryKey (currentPage s) s)
        (afterPrologue s)"
    by (auto simp: fetchProducts_cases cacheHit_cases split: option.splits)
  show g: "guidanceTimers (fetchProducts showLoading useCache s) = guidanceTimers s @ [clock s + 100]"
    by (simp add: eq fetchProducts_miss_short[OF sp] afterPrologue_frame)
  show "prefetchCache (fetchProducts showLoading useCache s) = prefetchCache s"
    by (simp add: eq fetchProducts_miss_short[OF sp] afterPrologue_frame)
  have c: "clock (fetchProducts showLoading useCache s) = clock s"
    by (simp add: eq fetchProducts_miss_short[OF sp] afterPrologue_frame)
  have "clock (fetchProducts showLoading useCache s) + 100 \<in>
          set (guidanceTimers (fetchProducts showLoading useCache s))"
    by (simp add: g c)
  from elapse_shows_guidance[OF this]
  show "tbody (elapse 100 (fetchProducts showLoading useCache s)) = [GuidanceRow]"
    and "\<not> searchLoading (elapse 100 (fetchProducts showLoading useCache s))"
    by simp_all
qed code_simp+

text \<open>
  C7. In \<open>staleSlotState\<close> the search box holds \<open>a\<close>, and the slot was filled, after
  the keystroke, by the prefetch of page 2 that the keystroke's handler did not abort
  (\<open>prefetchAbortController\<close> had been cleared by the \<open>finally\<close> block of the prefetch
  before it). The Load More button is still on the page, and clicking it calls
  \<open>fetchProducts\<close> with the one-character term: the call is served from the slot, the
  table shows the products 11 to 20 and no guidance row, and no timeout is pending that
  would show one.
\<close>

theorem short_search_served_from_slot:
  "shortTerm staleSlotState
   \<and> LoadMoreBtn \<in> set (pagination staleSlotState)
   \<and> shortTerm (step (Click LoadMoreBtn) staleSlotState)
   \<and> map rowId (tbody (step (Click LoadMoreBtn) staleSlotState)) =
       map Some [11, 12, 13, 14, 15, 16, 17, 18, 19, 20]
   \<and> guidanceTimers (step (Click LoadMoreBtn) staleSlotState) = []
   \<and> tbody (elapse 100 (step (Click LoadMoreBtn) staleSlotState)) \<noteq> [GuidanceRow]"
  by code_simp

subsection \<open>Cancelled and failed requests\<close>

text \<open>
  When the request's signal has been aborted, the rest of \<open>fetchProducts\<close> changes
  nothing but the list of requests in flight and the controller variable: the rows,
  the pagination, the loading indicator and the prefetch slot stay as they are, whatever
  the server answered. When it has not been aborted, a response that is not \<open>ok\<close> and a
  transport failure replace the rows by the failure row and turn the loading indicator
  off.
\<close>

lemma aborted_request_swallowed:
  "(r_signal r \<in> abortedSignals s \<longrightarrow>
      fetchProducts_resume r resp s =
        s\<lparr>pending := remove1 r (pending s), currentSearchAbortController := None\<rparr>
    \<and> tbody (fetchProducts_resume r resp s) = tbody s
    \<and> pagination (fetchProducts_resume r resp s) = pagination s
    \<and> searchLoading (fetchProducts_resume r resp s) = searchLoading s
    \<and> prefetchCache (fetchProducts_resume r resp s) = prefetchCache s)
   \<and> (r_signal r \<notin> abortedSignals s \<longrightarrow>
      tbody (fetchProducts_resume r (NotOk status) s) = [FailedRow (HttpError status)]
    \<and> \<not> searchLoading (fetchProducts_resume r (NotOk status) s)
    \<and> tbody (fetchProducts_resume r (Rejected msg) s) = [FailedRow (TransportError msg)]
    \<and> \<not> searchLoading (fetchProducts_resume r (Rejected msg) s))"
  by (simp add: fetchProducts_resume_def hideLoadingState_def Let_def)

text \<open>
  C8. After the events of \<open>supersedeTrace\<close> the status filter is \<open>false\<close> and the
  table shows the answer of the newest request, the products 21 to 25. The request for
  the active products, superseded by that one, is still in flight and was never
  aborted, since the \<open>finally\<close> block of the request before it had cleared
  \<open>currentSearchAbortController\<close>. When it is answered with the products 1 to 5,
  these replace the rows of the newer query; when it fails with status 500, the failure
  row replaces them.
\<close>

theorem superseded_request_overwrites_rows:
  "statusFilter (runEvents supersedeTrace initialState) = ''false''
   \<and> map rowId (tbody (runEvents supersedeTrace initialState)) = map Some [21, 22, 23, 24, 25]
   \<and> liveAuthoritative (runEvents supersedeTrace initialState) =
       [\<lparr>r_signal = 1,
          r_url = [(''skip'', Num 0), (''limit'', Num 10), (''active'', Bool True)],
          r_kind = Authoritative\<rparr>]
   \<and> map rowId (tbody (step (Settle 1 (Ok (samplePage (Some 5) 1 5)))
                          (runEvents supersedeTrace initialState))) =
       map Some [1, 2, 3, 4, 5]
   \<and> tbody (step (Settle 1 (NotOk 500)) (runEvents supersedeTrace initialState)) =
       [FailedRow (HttpError 500)]"
  by code_simp

subsection \<open>The refresh rate of a running upload\<close>

lemma gapsOk_snoc:
  "gapsOk prev (entries @ [(t, src)]) =
     (gapsOk prev entries \<and> t - lastTime prev entries \<ge> minGap src)"
  by (induction prev entries rule: gapsOk.induct) (auto simp: lastTime_def)

lemma lastTime_snoc: "lastTime p (entries @ [(t, src)]) = t"
  by (simp add: lastTime_def)

text \<open>
  \<open>lastProductRefresh\<close> is the time of the last logged refresh, so each of the two checks
  compares with the refresh before.
\<close>

lemma tick_inv: "jobInv u \<Longrightarrow> jobInv (fst (refreshIntervalTick now (u, s)))"
  by (simp add: jobInv_def gapsOk_snoc lastTime_snoc minGap_def PRODUCT_REFRESH_INTERVAL_def)

lemma message_inv: "jobInv u \<Longrightarrow> jobInv (fst (eventSource_onmessage now d (u, s)))"
  by (simp add: jobInv_def gapsOk_snoc lastTime_snoc minGap_def Let_def)

lemma step_inv:
  assumes "jobInv (fst us)"
  shows "jobInv (fst (syncStep e us))"
proof (cases us)
  case (Pair u s)
  with assms have i: "jobInv u"
    by simp
  show ?thesis
  proof (cases e)
    case (Tick now)
    then show ?thesis using tick_inv[OF i] i Pair by simp
  next
    case (Message now d)
    then show ?thesis using message_inv[OF i] i Pair by simp
  next
    case StreamError
    then show ?thesis using i Pair by (simp add: jobInv_def)
  qed
qed

lemma runSync_inv: "jobInv (fst us) \<Longrightarrow> jobInv (fst (runSync es us))"
  unfolding runSync_def
  by (induction es arbitrary: us) (simp_all add: step_inv)

lemma step_onlyTicks:
  "\<not> isProgressing e \<Longrightarrow> onlyTicks (refreshLog (fst us)) \<Longrightarrow>
     onlyTicks (refreshLog (fst (syncStep e us)))"
  by (cases us; cases e) (auto simp: onlyTicks_def Let_def)

lemma runSync_onlyTicks:
  "list_all (\<lambda>e. \<not> isProgressing e) es \<Longrightarrow> onlyTicks (refreshLog (fst us)) \<Longrightarrow>
     onlyTicks (refreshLog (fst (runSync es us)))"
  unfolding runSync_def
  by (induction es arbitrary: us) (simp_all add: step_onlyTicks)

lemma startJob_inv: "jobInv startJob"
  by (simp add: jobInv_def startJob_def lastTime_def)

text \<open>
  C9. Over any sequence of interval ticks and progress messages of an upload, each
  rate-checked refresh comes at least 1000 ms after the one before it, and at least
  2000 ms when the interval made it; when no message has status \<open>processing\<close> with a
  positive progress, the interval makes every refresh, so they are 2000 ms apart. A tick
  while the interval is set refreshes exactly when 2000 ms have passed since the last
  refresh, a \<open>processing\<close> message exactly when its progress is positive and 1000 ms
  have passed, a \<open>queued\<close> message never; the refresh clears the prefetch slot and then
  calls \<open>fetchProducts(false, false)\<close>.
\<close>

theorem refresh_rate_limited:
  "gapsOk 0 (refreshLog (fst (runSync es (startJob, s))))
   \<and> (list_all (\<lambda>e. \<not> isProgressing e) es \<longrightarrow>
        onlyTicks (refreshLog (fst (runSync es (startJob, s)))))
   \<and> (refreshInterval u \<longrightarrow>
        syncStep (Tick now) (u, s) =
          (if now - lastProductRefresh u \<ge> 2000
           then (u\<lparr>lastProductRefresh := now, refreshLog := refreshLog u @ [(now, IntervalTick)]\<rparr>,
                 fetchProducts False False (s\<lparr>prefetchCache := None\<rparr>))
           else (u, s)))
   \<and> (eventSource u \<and> pd_status d = ''processing'' \<longrightarrow>
        syncStep (Message now d) (u, s) =
          (if pd_progress d > 0 \<and> now - lastProductRefresh u \<ge> 1000
           then (u\<lparr>lastProductRefresh := now,
                    refreshLog := refreshLog u @ [(now, ProgressMessage)]\<rparr>,
                 fetchProducts False False (s\<lparr>prefetchCache := None\<rparr>))
           else (u, s)))
   \<and> (eventSource u \<and> pd_status d = ''queued'' \<longrightarrow> syncStep (Message now d) (u, s) = (u, s))"
proof (intro conjI impI)
  show "gapsOk 0 (refreshLog (fst (runSync es (startJob, s))))"
    using runSync_inv[of "(startJob, s)" es] startJob_inv by (simp add: jobInv_def)
  show "onlyTicks (refreshLog (fst (runSync es (startJob, s))))"
    if "list_all (\<lambda>e. \<not> isProgressing e) es"
    using runSync_onlyTicks[OF that, of "(startJob, s)"] by (simp add: onlyTicks_def startJob_def)
qed (simp_all add: PRODUCT_REFRESH_INTERVAL_def Let_def)

theorem refresh_rate_limited_witness:
  "list_all (\<lambda>e. \<not> isProgressing e) queuedUpload
   \<and> onlyTicks (refreshLog (fst (runSync queuedUpload (startJob, initialState))))
   \<and> refreshLog (fst (runSync queuedUpload (startJob, initialState))) =
       [(2000, IntervalTick), (4000, IntervalTick)]
   \<and> gapsOk 0 (refreshLog (fst (runSync sampleUpload (startJob, initialState))))
   \<and> refreshLog (fst (runSync sampleUpload (startJob, initialState))) =
       [(2000, IntervalTick), (3000, ProgressMessage), (4100, ProgressMessage)]
   \<and> refreshInterval startJob \<and> eventSource startJob
   \<and> syncStep (Tick 2000) (startJob, initialState) =
       (startJob\<lparr>lastProductRefresh := 2000, refreshLog := [(2000, IntervalTick)]\<rparr>,
        fetchProducts False False (initialState\<lparr>prefetchCache := None\<rparr>))"
proof -
  have a: "list_all (\<lambda>e. \<not> isProgressing e) queuedUpload"
    by code_simp
  have b: "refreshInterval startJob" "eventSource startJob" "lastProductRefresh startJob = 0"
    "refreshLog startJob = []"
    by (simp_all add: startJob_def)
  have c: "refreshLog (fst (runSync queuedUpload (startJob, initialState))) =
       [(2000, IntervalTick), (4000, IntervalTick)]"
    "refreshLog (fst (runSync sampleUpload (startJob, initialState))) =
       [(2000, IntervalTick), (3000, ProgressMessage), (4100, ProgressMessage)]"
    by code_simp+
  from refresh_rate_limited[of queuedUpload initialState] a
  have 1: "onlyTicks (refreshLog (fst (runSync queuedUpload (startJob, initialState))))"
    by blast
  from refresh_rate_limited[of sampleUpload initialState]
  have 2: "gapsOk 0 (refreshLog (fst (runSync sampleUpload (startJob, initialState))))"
    by blast
  from refresh_rate_limited[of _ initialState startJob 2000] b
  have 3: "syncStep (Tick 2000) (startJob, initialState) =
       (startJob\<lparr>lastProductRefresh := 2000, refreshLog := [(2000, IntervalTick)]\<rparr>,
        fetchProducts False False (initialState\<lparr>prefetchCache := None\<rparr>))"
    by simp
  from a b c 1 2 3 show ?thesis
    by simp
qed

subsection \<open>Filter changes and the prefetch\<close>

text \<open>
  C4. After the events of \<open>escapeTrace\<close> the status filter has just been changed, and
  the prefetch of page 2 that was issued before the change is still in flight with its
  signal not aborted: \<open>prefetchAbortController\<close> was \<open>null\<close> when the handler looked,
  cleared by the \<open>finally\<close> block of the prefetch before it. After the events of
  \<open>consumeTrace\<close> the products 111 to 120 that this prefetch brought are in the table,
  taken from the slot by Load More.
\<close>

theorem prefetch_escapes_filter_change:
  "prefetchAbortController (runEvents (butlast escapeTrace) initialState) = None
   \<and> livePrefetch (runEvents (butlast escapeTrace) initialState) =
       [\<lparr>r_signal = 3, r_url = [(''skip'', Num 10), (''limit'', Num 10)], r_kind = Prefetch 2\<rparr>]
   \<and> statusFilter (runEvents escapeTrace initialState) = ''true''
   \<and> prefetchCache (runEvents escapeTrace initialState) = None
   \<and> livePrefetch (runEvents escapeTrace initialState) =
       [\<lparr>r_signal = 3, r_url = [(''skip'', Num 10), (''limit'', Num 10)], r_kind = Prefetch 2\<rparr>]
   \<and> map rowId (tbody (runEvents (escapeTrace @ consumeTrace) initialState)) =
       map Some [1, 2, 3, 4, 5, 6, 7, 8, 9, 10, 111, 112, 113, 114, 115, 116, 117, 118, 119, 120]"
  by code_simp

subsection \<open>A burst of keystrokes\<close>

text \<open>What a keystroke does to the state.\<close>

lemma searchInput_input_effect:
  "searchDebounceTimer (searchInput_input v s) = Some (clock s + SEARCH_DEBOUNCE_MS)"
  "prefetchCache (searchInput_input v s) = None"
  "currentPage (searchInput_input v s) = 1"
  "searchInput (searchInput_input v s) = v"
  "abortedSignals (searchInput_input v s) =
     (case prefetchAbortController s of None \<Rightarrow> abortedSignals s
      | Some c \<Rightarrow> insert c (abortedSignals s))"
  "pending (searchInput_input v s) = pending s"
  "nextController (searchInput_input v s) = nextController s"
  "searchTypeFilter (searchInput_input v s) = searchTypeFilter s"
  "statusFilter (searchInput_input v s) = statusFilter s"
  "clock (searchInput_input v s) = clock s"
  by (simp_all add: searchInput_input_def debouncedSearch_def abortPrefetch_def abortSignal_def
      Let_def split: option.splits)

lemma keystroke_burstInv:
  "pending s = P \<Longrightarrow> nextController s = N \<Longrightarrow> searchTypeFilter s = T \<Longrightarrow> statusFilter s = F \<Longrightarrow>
     burstInv P N T F v (searchInput_input v s)"
  by (simp add: burstInv_def searchInput_input_effect)

text \<open>Less than 400 ms after a keystroke, the debounce timeout has not run.\<close>

lemma elapse_before_due:
  assumes "burstInv P N T F v st" and "gap < SEARCH_DEBOUNCE_MS"
  shows "pending (elapse gap st) = P \<and> nextController (elapse gap st) = N
    \<and> searchTypeFilter (elapse gap st) = T \<and> statusFilter (elapse gap st) = F"
proof -
  have "elapse gap st = (runGuidance (\<lambda>t. t \<le> clock st + gap) st)\<lparr>clock := clock st + gap\<rparr>"
    using assms by (simp add: elapse_def burstInv_def Let_def)
  then show ?thesis
    using assms(1) by (simp add: runGuidance_frame burstInv_def)
qed

lemma burst_burstInv:
  "burstInv P N T F v st \<Longrightarrow> list_all (\<lambda>k. fst k < SEARCH_DEBOUNCE_MS) ks \<Longrightarrow>
     burstInv P N T F (last (v # map snd ks)) (burst ks st)"
proof (induction ks arbitrary: st v)
  case Nil
  then show ?case by simp
next
  case (Cons k ks)
  obtain gap w where k: "k = (gap, w)"
    by (cases k)
  from Cons.prems k have gap: "gap < SEARCH_DEBOUNCE_MS" and rest: "list_all (\<lambda>k. fst k < SEARCH_DEBOUNCE_MS) ks"
    by simp_all
  from elapse_before_due[OF Cons.prems(1) gap]
  have "burstInv P N T F w (searchInput_input w (elapse gap st))"
    by (intro keystroke_burstInv) simp_all
  from Cons.IH[OF this rest] show ?case
    by (simp add: k)
qed

text \<open>400 ms after the last keystroke the timeout runs \<open>fetchProducts\<close> once, on an empty slot.\<close>

lemma elapse_after_due:
  assumes inv: "burstInv P N T F v st" and d: "d \<ge> SEARCH_DEBOUNCE_MS"
  shows "pending (elapse d st) =
           P @ (if tooShort v then []
                else [\<lparr>r_signal = N, r_url = buildParams 0 (trim v) T F, r_kind = Authoritative\<rparr>])
    \<and> nextController (elapse d st) = N + 1
    \<and> searchDebounceTimer (elapse d st) = None"
proof -
  define due where "due = clock st + SEARCH_DEBOUNCE_MS"
  define s1 where "s1 = runGuidance (\<lambda>t. t < due) st"
  define s1' where "s1' = s1\<lparr>clock := max (clock s1) due\<rparr>"
  define s2 where "s2 = debounceTimeout s1'"
  define s3 where "s3 = runGuidance (\<lambda>t. t \<le> clock st + d) s2"
  have e: "elapse d st = s3\<lparr>clock := clock st + d\<rparr>"
    using inv d by (simp add: elapse_def burstInv_def Let_def s3_def s2_def s1'_def s1_def due_def)
  have f1: "pending s1' = P" "nextController s1' = N" "searchTypeFilter s1' = T"
    "statusFilter s1' = F" "searchInput s1' = v" "prefetchCache s1' = None" "currentPage s1' = 1"
    using inv by (simp_all add: s1'_def s1_def runGuidance_frame burstInv_def)
  have key: "getQueryKey 1 s1' = buildParams 0 (trim v) T F"
    by (simp add: getQueryKey_def f1)
  have fp: "fetchProducts True True s1' =
      fetchProducts_miss True N (buildParams 0 (trim v) T F) (afterPrologue s1')"
    by (simp add: fetchProducts_cases f1 key)
  have sh: "shortTerm (afterPrologue s1') = tooShort v"
    by (simp add: shortTerm_def afterPrologue_frame f1)
  have ka: "getQueryKey 1 (afterPrologue s1') = buildParams 0 (trim v) T F"
    by (simp add: getQueryKey_afterPrologue key)
  have p2: "pending s2 =
           P @ (if tooShort v then []
                else [\<lparr>r_signal = N, r_url = buildParams 0 (trim v) T F, r_kind = Authoritative\<rparr>])"
  proof (cases "tooShort v")
    case True
    then have "shortTerm (afterPrologue s1')" using sh by simp
    from fetchProducts_miss_short[OF this] True show ?thesis
      by (simp add: s2_def debounceTimeout_def fp afterPrologue_frame f1)
  next
    case False
    then have "\<not> shortTerm (afterPrologue s1')" using sh by simp
    from fetchProducts_miss_long[OF this] False show ?thesis
      by (simp add: s2_def debounceTimeout_def fp afterPrologue_frame f1 ka)
  qed
  have n2: "nextController s2 = N + 1"
  proof (cases "tooShort v")
    case True
    then have "shortTerm (afterPrologue s1')" using sh by simp
    from fetchProducts_miss_short[OF this] show ?thesis
      by (simp add: s2_def debounceTimeout_def fp afterPrologue_frame f1)
  next
    case False
    then have "\<not> shortTerm (afterPrologue s1')" using sh by simp
    from fetchProducts_miss_long[OF this] show ?thesis
      by (simp add: s2_def debounceTimeout_def fp afterPrologue_frame f1)
  qed
  have t2: "searchDebounceTimer s2 = None"
    by (simp add: s2_def debounceTimeout_def)
  show ?thesis
    by (simp add: e s3_def runGuidance_frame p2 n2 t2)
qed

text \<open>
  C2, as the script has it. Each keystroke leaves the debounce timeout due 400 ms later
  (the one pending before is cleared), the prefetch slot empty, the controller held in
  \<open>prefetchAbortController\<close> aborted and the page at 1, and issues no request. When
  every keystroke of a burst comes less than 400 ms after the one before it, nothing is
  requested during the burst; 400 ms or more after the last keystroke \<open>fetchProducts\<close>
  has run once (one controller was created), and what it requested is: nothing when the
  trimmed content of the box is one character long; otherwise the one authoritative
  request for page 1 built from the content of the box after the last keystroke and the
  two filters.
\<close>

theorem debounced_burst:
  "(list_all (\<lambda>k. fst k < SEARCH_DEBOUNCE_MS) ks \<and> d \<ge> SEARCH_DEBOUNCE_MS \<longrightarrow>
      pending (burst ks (searchInput_input v s)) = pending s
    \<and> nextController (burst ks (searchInput_input v s)) = nextController s
    \<and> pending (elapse d (burst ks (searchInput_input v s))) =
        pending s @
          (if tooShort (last (v # map snd ks)) then []
           else [\<lparr>r_signal = nextController s,
                   r_url = buildParams 0 (trim (last (v # map snd ks)))
                             (searchTypeFilter s) (statusFilter s),
                   r_kind = Authoritative\<rparr>])
    \<and> nextController (elapse d (burst ks (searchInput_input v s))) = nextController s + 1
    \<and> searchDebounceTimer (elapse d (burst ks (searchInput_input v s))) = None)
   \<and> searchDebounceTimer (searchInput_input v s) = Some (clock s + 400)
   \<and> prefetchCache (searchInput_input v s) = None
   \<and> currentPage (searchInput_input v s) = 1
   \<and> abortedSignals (searchInput_input v s) =
       (case prefetchAbortController s of None \<Rightarrow> abortedSignals s
        | Some c \<Rightarrow> insert c (abortedSignals s))
   \<and> pending (searchInput_input v s) = pending s"
proof (intro conjI impI)
  assume a: "list_all (\<lambda>k. fst k < SEARCH_DEBOUNCE_MS) ks \<and> d \<ge> SEARCH_DEBOUNCE_MS"
  have "burstInv (pending s) (nextController s) (searchTypeFilter s) (statusFilter s) v
          (searchInput_input v s)"
    by (rule keystroke_burstInv) simp_all
  with a have inv: "burstInv (pending s) (nextController s) (searchTypeFilter s) (statusFilter s)
          (last (v # map snd ks)) (burst ks (searchInput_input v s))"
    by (intro burst_burstInv) simp_all
  then show "pending (burst ks (searchInput_input v s)) = pending s"
    and "nextController (burst ks (searchInput_input v s)) = nextController s"
    by (simp_all add: burstInv_def)
  from elapse_after_due[OF inv] a
  show "pending (elapse d (burst ks (searchInput_input v s))) =
        pending s @
          (if tooShort (last (v # map snd ks)) then []
           else [\<lparr>r_signal = nextController s,
                   r_url = buildParams 0 (trim (last (v # map snd ks)))
                             (searchTypeFilter s) (statusFilter s),
                   r_kind = Authoritative\<rparr>])"
    and "nextController (elapse d (burst ks (searchInput_input v s))) = nextController s + 1"
    and "searchDebounceTimer (elapse d (burst ks (searchInput_input v s))) = None"
    by simp_all
qed (simp_all add: searchInput_input_effect SEARCH_DEBOUNCE_MS_def)

theorem debounced_burst_witness:
  "list_all (\<lambda>k. fst k < SEARCH_DEBOUNCE_MS) [(120, ''sh''), (399, ''shoe'')]
   \<and> (400::nat) \<ge> SEARCH_DEBOUNCE_MS
   \<and> pending (burst [(120, ''sh''), (399, ''shoe'')] (searchInput_input ''s'' loadedState)) = []
   \<and> pending (elapse 400 (burst [(120, ''sh''), (399, ''shoe'')]
                 (searchInput_input ''s'' loadedState))) =
       [\<lparr>r_signal = 1,
          r_url = [(''skip'', Num 0), (''limit'', Num 10), (''search'', Str ''shoe''),
                   (''search_type'', Str ''sku'')],
          r_kind = Authoritative\<rparr>]
   \<and> clock (elapse 400 (burst [(120, ''sh''), (399, ''shoe'')]
                 (searchInput_input ''s'' loadedState))) = 919"
proof -
  have a: "list_all (\<lambda>k. fst k < SEARCH_DEBOUNCE_MS) [(120, ''sh''), (399, ''shoe'')]"
    "(400::nat) \<ge> SEARCH_DEBOUNCE_MS"
    by (simp_all add: SEARCH_DEBOUNCE_MS_def)
  have b: "pending loadedState = []" "nextController loadedState = 1"
    "searchTypeFilter loadedState = []" "statusFilter loadedState = []"
    "\<not> tooShort ''shoe''"
    "buildParams 0 (trim ''shoe'') [] [] =
       [(''skip'', Num 0), (''limit'', Num 10), (''search'', Str ''shoe''),
        (''search_type'', Str ''sku'')]"
    by code_simp+
  have c: "clock (elapse 400 (burst [(120, ''sh''), (399, ''shoe'')]
                 (searchInput_input ''s'' loadedState))) = 919"
    by code_simp
  from debounced_burst[of "[(120, ''sh''), (399, ''shoe'')]" 400 "''s''" loadedState] a
  have "pending (burst [(120, ''sh''), (399, ''shoe'')] (searchInput_input ''s'' loadedState)) =
          pending loadedState
      \<and> pending (elapse 400 (burst [(120, ''sh''), (399, ''shoe'')]
                 (searchInput_input ''s'' loadedState))) =
        pending loadedState @
          (if tooShort (last (''s'' # map snd [(120::nat, ''sh''), (399, ''shoe'')])) then []
           else [\<lparr>r_signal = nextController loadedState,
                   r_url = buildParams 0
                             (trim (last (''s'' # map snd [(120::nat, ''sh''), (399, ''shoe'')])))
                             (searchTypeFilter loadedState) (statusFilter loadedState),
                   r_kind = Authoritative\<rparr>])"
    by blast
  with a b c show ?thesis
    by simp
qed

text \<open>
  The claim as stated fails for a burst that leaves one character in the box: the user
  types \<open>a\<close> into the loaded page, the timeout runs, and no request at all has been
  issued; the guidance row is shown instead.
\<close>

theorem burst_without_query:
  "pending loadedState = []
   \<and> pending (runEvents [Input ''a'', Elapse 400, Elapse 100] loadedState) = []
   \<and> nextController (runEvents [Input ''a'', Elapse 400, Elapse 100] loadedState) =
       nextController loadedState + 1
   \<and> tbody (runEvents [Input ''a'', Elapse 400, Elapse 100] loadedState) = [GuidanceRow]"
  by code_simp

end
